theory Spec2Isabelle
  imports Complex_Main "HOL-Library.Sublist"
begin

section \<open>Strings and exceptions of the Python source\<close>

text \<open>
  The exceptions the two scripts can raise; \<open>ConnectionError\<close>, \<open>Timeout\<close> and
  \<open>HTTPError\<close> (with the status code) are those of the \<open>requests\<close> library. A function
  of the source that can raise returns \<open>pyerr + 'a\<close>, with \<open>Inl\<close> for the raised exception.
\<close>

datatype pyerr =
    TypeError | ValueError | ZeroDivisionError | AttributeError | KeyError | OSError
  | ConnectionError | Timeout | HTTPError nat

text \<open>Sequencing: the first exception raised ends the computation.\<close>

definition ebind :: "pyerr + 'a \<Rightarrow> ('a \<Rightarrow> pyerr + 'b) \<Rightarrow> pyerr + 'b" where
  "ebind m f = (case m of Inl e \<Rightarrow> Inl e | Inr x \<Rightarrow> f x)"

text \<open>A \<open>for\<close> loop that updates a state and stops at the first exception.\<close>

fun efold :: "('a \<Rightarrow> 's \<Rightarrow> pyerr + 's) \<Rightarrow> 'a list \<Rightarrow> 's \<Rightarrow> pyerr + 's" where
  "efold f [] s = Inr s"
| "efold f (x # xs) s = (case f x s of Inl e \<Rightarrow> Inl e | Inr s' \<Rightarrow> efold f xs s')"

text \<open>\<open>sub in s\<close> on Python strings: \<open>sub\<close> occurs in \<open>s\<close> as a contiguous run.\<close>

fun py_in :: "string \<Rightarrow> string \<Rightarrow> bool" where
  "py_in sub [] = (sub = [])"
| "py_in sub (c # cs) = (prefix sub (c # cs) \<or> py_in sub cs)"

text \<open>
  \<open>s.split(sep)\<close> for a non-empty separator: the pieces between the occurrences of
  \<open>sep\<close>, found from the left. (Python raises ValueError on an empty separator; the
  source only splits on the literals \<open>#_\<close>, \<open>#\<close> and \<open>}\<close>.)
\<close>

fun split_acc :: "string \<Rightarrow> string \<Rightarrow> string \<Rightarrow> string list" where
  "split_acc sep acc [] = [rev acc]"
| "split_acc sep acc (c # cs) =
     (if sep \<noteq> [] \<and> prefix sep (c # cs)
      then rev acc # split_acc sep [] (drop (length sep) (c # cs))
      else split_acc sep (c # acc) cs)"

definition py_split :: "string \<Rightarrow> string \<Rightarrow> string list" where
  "py_split s sep = split_acc sep [] s"

text \<open>\<open>s.split(sep)[-1]\<close>: the list of pieces is never empty.\<close>

definition split_last :: "string \<Rightarrow> string \<Rightarrow> string" where
  "split_last s sep = last (py_split s sep)"

text \<open>Truth value of an optional string: \<open>None\<close> and the empty string are false.\<close>

fun truthy :: "string option \<Rightarrow> bool" where
  "truthy None = False"
| "truthy (Some s) = (s \<noteq> [])"

text \<open>
  Floats are modelled by the rational numbers they denote, and the built-in conversions
  \<open>float(s)\<close> and \<open>int(s)\<close> of a string are parameters \<open>fl\<close> and \<open>pint\<close> of the model, with
  \<open>None\<close> where Python raises ValueError. Rounding, infinities and NaN are outside the
  model. \<open>float(None)\<close> and \<open>int(None)\<close> raise TypeError. The method \<open>s.lower()\<close> of a
  string, which follows the Unicode tables, is a parameter \<open>lw\<close> of the model as well.
\<close>

type_synonym float_of = "string \<Rightarrow> rat option"
type_synonym int_of = "string \<Rightarrow> int option"
type_synonym lower_of = "string \<Rightarrow> string"

definition py_float :: "float_of \<Rightarrow> string option \<Rightarrow> pyerr + rat" where
  "py_float fl v =
     (case v of
        None \<Rightarrow> Inl TypeError
      | Some s \<Rightarrow> (case fl s of None \<Rightarrow> Inl ValueError | Some x \<Rightarrow> Inr x))"

definition py_int :: "int_of \<Rightarrow> string option \<Rightarrow> pyerr + int" where
  "py_int pint v =
     (case v of
        None \<Rightarrow> Inl TypeError
      | Some s \<Rightarrow> (case pint s of None \<Rightarrow> Inl ValueError | Some x \<Rightarrow> Inr x))"

text \<open>\<open>float(v) if v else None\<close>\<close>

definition float_or_none :: "float_of \<Rightarrow> string option \<Rightarrow> pyerr + rat option" where
  "float_or_none fl v = (if truthy v then ebind (py_float fl v) (\<lambda>x. Inr (Some x)) else Inr None)"

text \<open>\<open>float(v) if v else 0\<close>\<close>

definition float_or_zero :: "float_of \<Rightarrow> string option \<Rightarrow> pyerr + rat" where
  "float_or_zero fl v = (if truthy v then py_float fl v else Inr 0)"

text \<open>Truth value of an optional float: \<open>None\<close> and \<open>0.0\<close> are false.\<close>

fun truthy_float :: "rat option \<Rightarrow> bool" where
  "truthy_float None = False"
| "truthy_float (Some x) = (x \<noteq> 0)"

text \<open>
  A format specification such as \<open>{name:<25}\<close> applied to \<open>None\<close> raises TypeError
  (\<open>NoneType.__format__\<close> accepts no format string); applied to a string it pads it.
\<close>

definition format_spec :: "'a option \<Rightarrow> pyerr + 'a" where
  "format_spec v = (case v of None \<Rightarrow> Inl TypeError | Some x \<Rightarrow> Inr x)"

section \<open>The element tree\<close>

text \<open>
  An element of \<open>xml.etree.ElementTree\<close>: its tag in the form \<open>{namespace}local\<close>, its
  attributes, its text (\<open>None\<close> when the element has none) and its children in document
  order.
\<close>

datatype element =
  Element (tag: string) (attrib: "(string \<times> string) list") (el_text: "string option")
    (children: "element list")

text \<open>\<open>root.iter()\<close>: the element and all its descendants, in document order.\<close>

fun et_iter :: "element \<Rightarrow> element list" where
  "et_iter (Element t a x cs) = Element t a x cs # concat (map et_iter cs)"

datatype prefix_name = cim | rdf | eu | md

fun NAMESPACES :: "prefix_name \<Rightarrow> string" where
  "NAMESPACES cim = ''http://iec.ch/TC57/CIM100#''"
| "NAMESPACES rdf = ''http://www.w3.org/1999/02/22-rdf-syntax-ns#''"
| "NAMESPACES eu = ''http://iec.ch/TC57/CIM100-European#''"
| "NAMESPACES md = ''http://iec.ch/TC57/61970-552/ModelDescription/1#''"

definition full_tag :: "prefix_name \<Rightarrow> string \<Rightarrow> string" where
  "full_tag ns tag_name = ''{'' @ NAMESPACES ns @ ''}'' @ tag_name"

text \<open>
  \<open>root.findall('.//cim:X', NAMESPACES)\<close>: every descendant of the root (the root itself
  excluded) whose tag is \<open>X\<close> in the CIM namespace, in document order.
\<close>

definition findall :: "element \<Rightarrow> string \<Rightarrow> element list" where
  "findall root_el local = filter (\<lambda>e. tag e = full_tag cim local) (concat (map et_iter (children root_el)))"

text \<open>\<open>element.find(full_tag, NAMESPACES)\<close>: the first direct child with that tag.\<close>

definition et_find :: "element \<Rightarrow> string \<Rightarrow> element option" where
  "et_find element ftag = List.find (\<lambda>c. tag c = ftag) (children element)"

definition get_element_text_ns :: "element \<Rightarrow> string \<Rightarrow> prefix_name \<Rightarrow> string option" where
  "get_element_text_ns element tag_name ns =
     (case et_find element (full_tag ns tag_name) of
        Some child \<Rightarrow> el_text child
      | None \<Rightarrow> None)"

definition get_element_resource_ns :: "element \<Rightarrow> string \<Rightarrow> prefix_name \<Rightarrow> string option" where
  "get_element_resource_ns element tag_name ns =
     (case et_find element (full_tag ns tag_name) of
        Some child \<Rightarrow> map_of (attrib child) (full_tag rdf ''resource'')
      | None \<Rightarrow> None)"

text \<open>Every call of the source leaves \<open>ns\<close> at its default, \<open>'cim'\<close>.\<close>

definition get_element_text :: "element \<Rightarrow> string \<Rightarrow> string option" where
  "get_element_text element tag_name = get_element_text_ns element tag_name cim"

definition get_element_resource :: "element \<Rightarrow> string \<Rightarrow> string option" where
  "get_element_resource element tag_name = get_element_resource_ns element tag_name cim"

section \<open>Dictionaries\<close>

text \<open>
  A \<open>dict\<close> is an association list with distinct keys in insertion order: assigning to a
  key that is present replaces its value in place, a new key goes to the end.
\<close>

fun dict_set :: "'k \<Rightarrow> 'v \<Rightarrow> ('k \<times> 'v) list \<Rightarrow> ('k \<times> 'v) list" where
  "dict_set k v [] = [(k, v)]"
| "dict_set k v ((k', v') # d) =
     (if k = k' then (k', v) # d else (k', v') # dict_set k v d)"

text \<open>\<open>d[k][field] = ...\<close> for a key that is present.\<close>

fun dict_update :: "'k \<Rightarrow> ('v \<Rightarrow> 'v) \<Rightarrow> ('k \<times> 'v) list \<Rightarrow> ('k \<times> 'v) list" where
  "dict_update k f [] = []"
| "dict_update k f ((k', v') # d) =
     (if k = k' then (k', f v') # d else (k', v') # dict_update k f d)"

section \<open>Question 1: generator capacity and power factors\<close>

text \<open>
  A value of \<open>gen_units\<close>. The keys \<open>power_factor\<close> and \<open>rated_s\<close> are set only by a
  synchronous machine that refers to the unit: \<open>None\<close> is the absent key, \<open>Some None\<close> the
  key holding Python's \<open>None\<close>.
\<close>

record gen_unit_row =
  gu_name :: "string option"
  gu_max_p :: rat
  gu_min_p :: rat
  gu_nominal_p :: rat
  gu_power_factor :: "rat option option"
  gu_rated_s :: "rat option option"

type_synonym gen_units = "(string option \<times> gen_unit_row) list"

definition add_gen_unit :: "float_of \<Rightarrow> element \<Rightarrow> gen_units \<times> rat \<Rightarrow> pyerr + gen_units \<times> rat" where
  "add_gen_unit fl gen_unit st =
     (let mrid = get_element_text gen_unit ''IdentifiedObject.mRID'';
          name = get_element_text gen_unit ''IdentifiedObject.name'';
          max_p = get_element_text gen_unit ''GeneratingUnit.maxOperatingP'';
          min_p = get_element_text gen_unit ''GeneratingUnit.minOperatingP'';
          nominal_p = get_element_text gen_unit ''GeneratingUnit.nominalP''
      in if truthy max_p then
           ebind (py_float fl max_p) (\<lambda>mx.
           ebind (float_or_zero fl min_p) (\<lambda>mn.
           ebind (float_or_zero fl nominal_p) (\<lambda>nm.
             Inr (dict_set mrid
                    \<lparr>gu_name = name, gu_max_p = mx, gu_min_p = mn, gu_nominal_p = nm,
                     gu_power_factor = None, gu_rated_s = None\<rparr> (fst st),
                  snd st + mx))))
         else Inr st)"

text \<open>
  The body of the loop over the synchronous machines. A reference whose id is not a key
  of \<open>gen_units\<close> is passed over: nothing is recorded for it and nothing is printed.
\<close>

definition attach_machine :: "float_of \<Rightarrow> element \<Rightarrow> gen_units \<Rightarrow> pyerr + gen_units" where
  "attach_machine fl sync_machine units =
     (let gen_unit_ref = get_element_resource sync_machine ''RotatingMachine.GeneratingUnit'';
          pf = get_element_text sync_machine ''RotatingMachine.ratedPowerFactor'';
          rated_s = get_element_text sync_machine ''RotatingMachine.ratedS''
      in if truthy gen_unit_ref then
           (let gen_unit_id = split_last (the gen_unit_ref) ''#_'' in
            if Some gen_unit_id \<in> set (map fst units) then
              ebind (float_or_none fl pf) (\<lambda>pfv.
              ebind (float_or_none fl rated_s) (\<lambda>rsv.
                Inr (dict_update (Some gen_unit_id)
                       (\<lambda>row. row\<lparr>gu_power_factor := Some pfv, gu_rated_s := Some rsv\<rparr>) units)))
            else Inr units)
         else Inr units)"

text \<open>
  Printing a row: \<open>{data['name']:<25}\<close> needs a name, and \<open>f'{pf:.2f}'\<close> and
  \<open>f'{rated_s:.1f}'\<close> need a float once the key is set.
\<close>

definition print_row :: "gen_unit_row \<Rightarrow> pyerr + unit" where
  "print_row data =
     ebind (format_spec (gu_name data)) (\<lambda>_.
       if gu_power_factor data = Some None \<or> gu_rated_s data = Some None
       then Inl TypeError else Inr ())"

record q1_report =
  total_capacity :: rat
  q1_units :: gen_units

definition analyze_question_1 :: "float_of \<Rightarrow> element \<Rightarrow> pyerr + q1_report" where
  "analyze_question_1 fl root_el =
     ebind (efold (add_gen_unit fl) (findall root_el ''GeneratingUnit'') ([], 0)) (\<lambda>st.
     ebind (efold (attach_machine fl) (findall root_el ''SynchronousMachine'') (fst st)) (\<lambda>units.
     ebind (efold (\<lambda>kv _. print_row (snd kv)) units ()) (\<lambda>_.
       Inr \<lparr>total_capacity = snd st, q1_units = units\<rparr>)))"

section \<open>Question 2: regulation control of NL-G1\<close>

datatype regulation = RegulationMode string | NoMatchingControl | ControlNotFound

record q2_report =
  q2_mrid :: "string option"
  q2_regulation :: regulation

definition analyze_question_2 :: "element \<Rightarrow> q2_report option" where
  "analyze_question_2 root_el =
     (case List.find (\<lambda>sync_machine. get_element_text sync_machine ''IdentifiedObject.name'' = Some ''NL-G1'')
             (findall root_el ''SynchronousMachine'') of
        None \<Rightarrow> None
      | Some sync_machine \<Rightarrow>
          (let mrid = get_element_text sync_machine ''IdentifiedObject.mRID'';
               reg_control_ref = get_element_resource sync_machine ''RegulatingCondEq.RegulatingControl''
           in Some \<lparr>q2_mrid = mrid,
                    q2_regulation =
                      (if truthy reg_control_ref then
                         (case List.find (\<lambda>reg_control.
                                   get_element_text reg_control ''IdentifiedObject.mRID''
                                     = Some (split_last (the reg_control_ref) ''#_''))
                                 (findall root_el ''RegulatingControl'') of
                            None \<Rightarrow> NoMatchingControl
                          | Some reg_control \<Rightarrow>
                              (let mode_resource = get_element_resource reg_control ''RegulatingControl.mode''
                               in RegulationMode (if truthy mode_resource
                                                  then split_last (the mode_resource) ''#''
                                                  else ''Unknown'')))
                       else ControlNotFound)\<rparr>))"

section \<open>Question 3: transformer winding voltages\<close>

record winding =
  w_end :: int
  w_u :: rat
  w_s :: rat
  w_conn :: string

text \<open>
  The body of the loop over the transformer ends. The reference is matched by
  \<open>transformer_id in tf_ref\<close>, a substring test.
\<close>

definition add_winding ::
  "float_of \<Rightarrow> int_of \<Rightarrow> string \<Rightarrow> element \<Rightarrow> winding list \<Rightarrow> pyerr + winding list" where
  "add_winding fl pint tid tf_end windings =
     (let tf_ref = get_element_resource tf_end ''PowerTransformerEnd.PowerTransformer'' in
      if truthy tf_ref \<and> py_in tid (the tf_ref) then
        (let end_num = get_element_text tf_end ''TransformerEnd.endNumber'';
             rated_u = get_element_text tf_end ''PowerTransformerEnd.ratedU'';
             rated_s = get_element_text tf_end ''PowerTransformerEnd.ratedS'';
             connection = get_element_resource tf_end ''PowerTransformerEnd.connectionKind'';
             connection_type = (if truthy connection then split_last (the connection) ''#'' else ''N/A'')
         in ebind (py_int pint end_num) (\<lambda>e.
            ebind (py_float fl rated_u) (\<lambda>u.
            ebind (py_float fl rated_s) (\<lambda>s.
              Inr (windings @ [\<lparr>w_end = e, w_u = u, w_s = s, w_conn = connection_type\<rparr>])))))
      else Inr windings)"

text \<open>\<open>side = "YG" if w['u'] > 100 else "AG"\<close>: high voltage or low voltage.\<close>

datatype side = YG | AG

definition side_of :: "winding \<Rightarrow> side" where
  "side_of w = (if w_u w > 100 then YG else AG)"

text \<open>
  \<open>ratio = windings[0]['u'] / windings[1]['u']\<close>, computed when there are at least two
  windings; dividing by \<open>0.0\<close> raises ZeroDivisionError.
\<close>

definition voltage_ratio :: "winding list \<Rightarrow> pyerr + rat option" where
  "voltage_ratio windings =
     (case windings of
        w0 # w1 # _ \<Rightarrow> if w_u w1 = 0 then Inl ZeroDivisionError else Inr (Some (w_u w0 / w_u w1))
      | _ \<Rightarrow> Inr None)"

record q3_report =
  q3_name :: "string option"
  q3_windings :: "winding list"
  q3_sides :: "side list"
  q3_ratio :: "rat option"

text \<open>
  The source fixes \<open>transformer_id\<close> to a literal; the query is written for any id and
  \<open>analyze_question_3\<close> applies it to the literal. \<open>list.sort\<close> is stable, as \<open>sort_key\<close> is.
\<close>

definition winding_summary :: "float_of \<Rightarrow> int_of \<Rightarrow> element \<Rightarrow> string \<Rightarrow> pyerr + q3_report option" where
  "winding_summary fl pint root_el tid =
     (case List.find (\<lambda>transformer. get_element_text transformer ''IdentifiedObject.mRID'' = Some tid)
             (findall root_el ''PowerTransformer'') of
        None \<Rightarrow> Inr None
      | Some transformer \<Rightarrow>
          ebind (efold (add_winding fl pint tid) (findall root_el ''PowerTransformerEnd'') []) (\<lambda>found.
            let windings = sort_key w_end found in
            ebind (voltage_ratio windings) (\<lambda>ratio.
              Inr (Some \<lparr>q3_name = get_element_text transformer ''IdentifiedObject.name'',
                         q3_windings = windings,
                         q3_sides = map side_of windings,
                         q3_ratio = ratio\<rparr>))))"

definition transformer_id :: string where
  "transformer_id = ''2184f365-8cd5-4b5d-8a28-9d68603bb6a4''"

definition analyze_question_3 :: "float_of \<Rightarrow> int_of \<Rightarrow> element \<Rightarrow> pyerr + q3_report option" where
  "analyze_question_3 fl pint root_el = winding_summary fl pint root_el transformer_id"

section \<open>Question 4: line limits\<close>

text \<open>The loop over the limit types of questions 4 and 6, left by \<open>break\<close> at the first
  limit type with the mRID looked for.\<close>

definition find_limit_type :: "element \<Rightarrow> string \<Rightarrow> element option" where
  "find_limit_type root_el lt_id =
     List.find (\<lambda>limit_type. get_element_text limit_type ''IdentifiedObject.mRID'' = Some lt_id)
       (findall root_el ''OperationalLimitType'')"

datatype duration = Permanent | Seconds string | NotAvailable

record limit_row =
  lr_port :: string
  lr_type :: string
  lr_value :: string
  lr_duration :: duration

text \<open>
  The innermost part: the limit type of a current limit is looked up by mRID; when no
  limit type has that mRID the loop ends without printing anything.
\<close>

definition limit_row_of :: "element \<Rightarrow> string option \<Rightarrow> element \<Rightarrow> pyerr + limit_row list" where
  "limit_row_of root_el seq current_limit =
     (let limit_value = get_element_text current_limit ''CurrentLimit.normalValue'';
          limit_type_ref = get_element_resource current_limit ''OperationalLimit.OperationalLimitType''
      in if truthy limit_type_ref then
           (case find_limit_type root_el (split_last (the limit_type_ref) ''#_'') of
              None \<Rightarrow> Inr []
            | Some limit_type \<Rightarrow>
                (let lt_name = get_element_text limit_type ''IdentifiedObject.name'';
                     duration = get_element_text limit_type ''OperationalLimitType.acceptableDuration'';
                     is_infinite = get_element_text limit_type ''OperationalLimitType.isInfiniteDuration'';
                     duration_str = (if is_infinite = Some ''true'' then Permanent
                                     else if truthy duration then Seconds (the duration)
                                     else NotAvailable)
                 in ebind (format_spec seq) (\<lambda>p.
                    ebind (format_spec lt_name) (\<lambda>t.
                    ebind (format_spec limit_value) (\<lambda>v.
                      Inr [\<lparr>lr_port = p, lr_type = t, lr_value = v, lr_duration = duration_str\<rparr>])))))
         else Inr [])"

definition limits_of_set :: "element \<Rightarrow> string option \<Rightarrow> element \<Rightarrow> pyerr + limit_row list" where
  "limits_of_set root_el seq limit_set =
     (let limit_set_mrid = get_element_text limit_set ''IdentifiedObject.mRID'' in
      efold (\<lambda>current_limit rows.
               let ls_ref = get_element_resource current_limit ''OperationalLimit.OperationalLimitSet'' in
               if \<not> truthy ls_ref then Inr rows
               else
                 (case limit_set_mrid of
                    None \<Rightarrow> Inl TypeError
                  | Some m \<Rightarrow>
                      if py_in m (the ls_ref)
                      then ebind (limit_row_of root_el seq current_limit) (\<lambda>found. Inr (rows @ found))
                      else Inr rows))
        (findall root_el ''CurrentLimit'') [])"

definition limits_of_terminal :: "element \<Rightarrow> string option \<times> string option \<Rightarrow> pyerr + limit_row list" where
  "limits_of_terminal root_el term =
     efold (\<lambda>limit_set rows.
              let term_ref = get_element_resource limit_set ''OperationalLimitSet.Terminal'' in
              if \<not> truthy term_ref then Inr rows
              else
                (case fst term of
                   None \<Rightarrow> Inl TypeError
                 | Some m \<Rightarrow>
                     if py_in m (the term_ref)
                     then ebind (limits_of_set root_el (snd term) limit_set) (\<lambda>found. Inr (rows @ found))
                     else Inr rows))
       (findall root_el ''OperationalLimitSet'') []"

definition terminals_of :: "element \<Rightarrow> string \<Rightarrow> (string option \<times> string option) list" where
  "terminals_of root_el lid =
     map (\<lambda>terminal. (get_element_text terminal ''IdentifiedObject.mRID'',
                       get_element_text terminal ''ACDCTerminal.sequenceNumber''))
       (filter (\<lambda>terminal.
                  let equip_ref = get_element_resource terminal ''Terminal.ConductingEquipment''
                  in truthy equip_ref \<and> py_in lid (the equip_ref))
          (findall root_el ''Terminal''))"

record q4_report =
  q4_name :: "string option"
  q4_rows :: "limit_row list"

definition line_limits :: "element \<Rightarrow> string \<Rightarrow> pyerr + q4_report option" where
  "line_limits root_el lid =
     (case List.find (\<lambda>line. get_element_text line ''IdentifiedObject.mRID'' = Some lid)
             (findall root_el ''ACLineSegment'') of
        None \<Rightarrow> Inr None
      | Some line \<Rightarrow>
          ebind (efold (\<lambda>term rows. ebind (limits_of_terminal root_el term) (\<lambda>found. Inr (rows @ found)))
                   (terminals_of root_el lid) []) (\<lambda>rows.
            Inr (Some \<lparr>q4_name = get_element_text line ''IdentifiedObject.name'', q4_rows = rows\<rparr>)))"

definition line_id :: string where
  "line_id = ''e8acf6b6-99cb-45ad-b8dc-16c7866a4ddc''"

definition analyze_question_4 :: "element \<Rightarrow> pyerr + q4_report option" where
  "analyze_question_4 root_el = line_limits root_el line_id"

section \<open>Question 5: slack generator\<close>

record generator =
  g_name :: "string option"
  g_control :: string
  g_max_p :: rat

text \<open>The test that marks a unit as slack.\<close>

definition is_slack_control :: "lower_of \<Rightarrow> string \<Rightarrow> bool" where
  "is_slack_control lw control_str \<longleftrightarrow>
     py_in ''onAGC'' control_str \<or> py_in ''slack'' (lw control_str)"

text \<open>A printed line of the list of units: whether it is marked SLACK, and the unit.\<close>

record unit_line =
  ul_slack :: bool
  ul_name :: string
  ul_control :: string
  ul_max_p :: "string option"

record q5_state =
  generators :: "generator list"
  slack_found :: bool
  unit_lines :: "unit_line list"

text \<open>
  The body of the loop over the generating units: the unit is appended to \<open>generators\<close>
  with \<open>float(max_p) if max_p else 0\<close>, then its line is printed (\<open>{name:<25}\<close>).
\<close>

definition scan_gen_unit :: "float_of \<Rightarrow> lower_of \<Rightarrow> element \<Rightarrow> q5_state \<Rightarrow> pyerr + q5_state" where
  "scan_gen_unit fl lw gen_unit st =
     (let name = get_element_text gen_unit ''IdentifiedObject.name'';
          control_source = get_element_resource gen_unit ''GeneratingUnit.genControlSource'';
          max_p = get_element_text gen_unit ''GeneratingUnit.maxOperatingP'';
          control_str = (if truthy control_source then split_last (the control_source) ''#''
                         else ''Not specified'')
      in ebind (float_or_zero fl max_p) (\<lambda>mp.
         ebind (format_spec name) (\<lambda>n.
           Inr \<lparr>generators = generators st @ [\<lparr>g_name = name, g_control = control_str, g_max_p = mp\<rparr>],
                slack_found = (slack_found st \<or> is_slack_control lw control_str),
                unit_lines = unit_lines st
                  @ [\<lparr>ul_slack = is_slack_control lw control_str, ul_name = n,
                      ul_control = control_str, ul_max_p = max_p\<rparr>]\<rparr>)))"

text \<open>
  \<open>max(generators, key=lambda x: x['max_p'])\<close>: the running maximum is replaced only by a
  strictly larger key, so the first of several largest units is returned.
\<close>

fun max_by :: "('a \<Rightarrow> rat) \<Rightarrow> 'a \<Rightarrow> 'a list \<Rightarrow> 'a" where
  "max_by key best [] = best"
| "max_by key best (x # xs) = max_by key (if key x > key best then x else best) xs"

definition largest :: "generator list \<Rightarrow> generator option" where
  "largest gens = (case gens of [] \<Rightarrow> None | g # gs \<Rightarrow> Some (max_by g_max_p g gs))"

record q5_report =
  q5_lines :: "unit_line list"
  q5_generators :: "generator list"
  no_slack_warning :: bool
  recommendation :: "generator option"

definition analyze_question_5 :: "float_of \<Rightarrow> lower_of \<Rightarrow> element \<Rightarrow> pyerr + q5_report" where
  "analyze_question_5 fl lw root_el =
     ebind (efold (scan_gen_unit fl lw) (findall root_el ''GeneratingUnit'')
              \<lparr>generators = [], slack_found = False, unit_lines = []\<rparr>) (\<lambda>st.
       Inr \<lparr>q5_lines = unit_lines st,
            q5_generators = generators st,
            no_slack_warning = (\<not> slack_found st),
            recommendation = (if \<not> slack_found st then largest (generators st) else None)\<rparr>)"

section \<open>Question 6: model errors\<close>

text \<open>
  The entries the checks append to \<open>errors\<close> and \<open>warnings\<close>: one constructor for each
  format string of the source, carrying the values it interpolates.
\<close>

datatype message =
    DuplicateMRID string
  | UsedIn nat "string set"
  | DuplicateEndMRID string
  | FoundInWindings nat "string option list"
  | IllogicalLimit rat rat
  | LimitHint
  | VoltageMismatch string rat
  | ZeroImpedance "string option"
  | MissingClosingTag
  | IncompleteMRID
  | TypoLname
  | XmlNotChecked string

subsection \<open>Check 1: duplicate mRIDs\<close>

text \<open>\<open>mrids[key].append(v)\<close> on a \<open>defaultdict(list)\<close>; the keys keep their insertion order.\<close>

fun dict_append :: "'k \<Rightarrow> 'v \<Rightarrow> ('k \<times> 'v list) list \<Rightarrow> ('k \<times> 'v list) list" where
  "dict_append k v [] = [(k, [v])]"
| "dict_append k v ((k', vs) # d) =
     (if k = k' then (k', vs @ [v]) # d else (k', vs) # dict_append k v d)"

definition note_child :: "element \<Rightarrow> element \<Rightarrow> (string \<times> string list) list \<Rightarrow> (string \<times> string list) list" where
  "note_child element child mrids =
     (if py_in ''mRID'' (tag child) then
        (if truthy (el_text child)
         then dict_append (the (el_text child)) (split_last (tag element) ''}'') mrids
         else mrids)
      else mrids)"

definition collect_mrids :: "element \<Rightarrow> (string \<times> string list) list" where
  "collect_mrids root_el =
     fold (\<lambda>element mrids. fold (note_child element) (children element) mrids) (et_iter root_el) []"

definition duplicate_report :: "string \<times> string list \<Rightarrow> message list" where
  "duplicate_report kv =
     (case kv of (mrid, elements) \<Rightarrow>
        if length elements > 1
        then [DuplicateMRID mrid, UsedIn (length elements) (set elements)]
        else [])"

definition check_duplicate_mrids :: "element \<Rightarrow> message list" where
  "check_duplicate_mrids root_el = concat (map duplicate_report (collect_mrids root_el))"

subsection \<open>Check 2: duplicate transformer ends\<close>

definition note_tf_end :: "element \<Rightarrow> (string \<times> string option list) list \<Rightarrow> (string \<times> string option list) list" where
  "note_tf_end tf_end tf_end_ids =
     (let mrid = get_element_text tf_end ''IdentifiedObject.mRID'';
          name = get_element_text tf_end ''IdentifiedObject.name''
      in if truthy mrid then dict_append (the mrid) name tf_end_ids else tf_end_ids)"

definition tf_end_report :: "string \<times> string option list \<Rightarrow> message list" where
  "tf_end_report kv =
     (case kv of (mrid, names) \<Rightarrow>
        if length names > 1
        then [DuplicateEndMRID mrid, FoundInWindings (length names) names]
        else [])"

definition check_transformer_ends :: "element \<Rightarrow> message list" where
  "check_transformer_ends root_el =
     concat (map tf_end_report (fold note_tf_end (findall root_el ''PowerTransformerEnd'') []))"

subsection \<open>Check 3: TATL below PATL\<close>

text \<open>
  The body of the loop over the current limits, for the limit set with mRID \<open>ls_mrid\<close>;
  the state is \<open>(patl_value, tatl_value)\<close>. \<open>ls_mrid in ls_ref\<close> raises TypeError when
  \<open>ls_mrid\<close> is \<open>None\<close>, and so does \<open>'PATL' in lt_name\<close> when \<open>lt_name\<close> is.
\<close>

definition scan_current_limit ::
  "float_of \<Rightarrow> element \<Rightarrow> string option \<Rightarrow> element \<Rightarrow> rat option \<times> rat option
     \<Rightarrow> pyerr + rat option \<times> rat option" where
  "scan_current_limit fl root_el ls_mrid current_limit pt =
     (let ls_ref = get_element_resource current_limit ''OperationalLimit.OperationalLimitSet'' in
      if \<not> truthy ls_ref then Inr pt
      else
        (case ls_mrid of
           None \<Rightarrow> Inl TypeError
         | Some m \<Rightarrow>
             if \<not> py_in m (the ls_ref) then Inr pt
             else
               (let limit_value = get_element_text current_limit ''CurrentLimit.normalValue'';
                    limit_type_ref =
                      get_element_resource current_limit ''OperationalLimit.OperationalLimitType''
                in if \<not> truthy limit_type_ref then Inr pt
                   else
                     (case find_limit_type root_el (split_last (the limit_type_ref) ''#_'') of
                        None \<Rightarrow> Inr pt
                      | Some limit_type \<Rightarrow>
                          (case get_element_text limit_type ''IdentifiedObject.name'' of
                             None \<Rightarrow> Inl TypeError
                           | Some lt_name \<Rightarrow>
                               if py_in ''PATL'' lt_name
                               then ebind (float_or_none fl limit_value) (\<lambda>v. Inr (v, snd pt))
                               else if py_in ''TATL'' lt_name
                               then ebind (float_or_none fl limit_value) (\<lambda>v. Inr (fst pt, v))
                               else Inr pt)))))"

definition limit_values :: "float_of \<Rightarrow> element \<Rightarrow> element \<Rightarrow> pyerr + rat option \<times> rat option" where
  "limit_values fl root_el limit_set =
     efold (scan_current_limit fl root_el (get_element_text limit_set ''IdentifiedObject.mRID''))
       (findall root_el ''CurrentLimit'') (None, None)"

text \<open>\<open>if patl_value and tatl_value and tatl_value < patl_value\<close>: two entries are appended.\<close>

definition limit_report :: "rat option \<times> rat option \<Rightarrow> message list" where
  "limit_report pt =
     (case pt of (patl_value, tatl_value) \<Rightarrow>
        if truthy_float patl_value \<and> truthy_float tatl_value \<and> the tatl_value < the patl_value
        then [IllogicalLimit (the tatl_value) (the patl_value), LimitHint]
        else [])"

definition check_limit_set :: "float_of \<Rightarrow> element \<Rightarrow> element \<Rightarrow> pyerr + message list" where
  "check_limit_set fl root_el limit_set =
     ebind (limit_values fl root_el limit_set) (\<lambda>pt. Inr (limit_report pt))"

definition check_limit_order :: "float_of \<Rightarrow> element \<Rightarrow> pyerr + message list" where
  "check_limit_order fl root_el =
     efold (\<lambda>limit_set errors.
              ebind (check_limit_set fl root_el limit_set) (\<lambda>found. Inr (errors @ found)))
       (findall root_el ''OperationalLimitSet'') []"

subsection \<open>Check 4: voltage level against base voltage\<close>

text \<open>The \<open>try\<close> block: a ValueError of either conversion is caught and ignored.\<close>

definition voltage_mismatch :: "float_of \<Rightarrow> string \<Rightarrow> string \<Rightarrow> message list" where
  "voltage_mismatch fl vl_name nominal_v =
     (case fl vl_name of
        None \<Rightarrow> []
      | Some vl_num \<Rightarrow>
          (case fl nominal_v of
             None \<Rightarrow> []
           | Some bv_num \<Rightarrow>
               if \<bar>vl_num - bv_num\<bar> > 1 then [VoltageMismatch vl_name bv_num] else []))"

definition check_voltage_level :: "float_of \<Rightarrow> element \<Rightarrow> element \<Rightarrow> message list" where
  "check_voltage_level fl root_el vl =
     (let vl_name = get_element_text vl ''IdentifiedObject.name'';
          base_v_ref = get_element_resource vl ''VoltageLevel.BaseVoltage''
      in if truthy base_v_ref \<and> truthy vl_name then
           (case List.find (\<lambda>base_v. get_element_text base_v ''IdentifiedObject.mRID''
                                       = Some (split_last (the base_v_ref) ''#_''))
                   (findall root_el ''BaseVoltage'') of
              None \<Rightarrow> []
            | Some base_v \<Rightarrow>
                (let nominal_v = get_element_text base_v ''BaseVoltage.nominalVoltage'' in
                 if truthy nominal_v then voltage_mismatch fl (the vl_name) (the nominal_v) else []))
         else [])"

definition check_voltage_levels :: "float_of \<Rightarrow> element \<Rightarrow> message list" where
  "check_voltage_levels fl root_el =
     concat (map (check_voltage_level fl root_el) (findall root_el ''VoltageLevel''))"

subsection \<open>Check 5: zero impedance\<close>

text \<open>
  \<open>if r and x and float(r) == 0 and float(x) == 0\<close>: \<open>float(x)\<close> is evaluated only when
  \<open>float(r)\<close> is zero.
\<close>

definition check_injection :: "float_of \<Rightarrow> element \<Rightarrow> pyerr + message list" where
  "check_injection fl eq_inj =
     (let name = get_element_text eq_inj ''IdentifiedObject.name'';
          r = get_element_text eq_inj ''EquivalentInjection.r'';
          x = get_element_text eq_inj ''EquivalentInjection.x''
      in if truthy r \<and> truthy x then
           ebind (py_float fl r) (\<lambda>rv.
             if rv = 0 then
               ebind (py_float fl x) (\<lambda>xv. Inr (if xv = 0 then [ZeroImpedance name] else []))
             else Inr [])
         else Inr [])"

definition check_zero_impedance :: "float_of \<Rightarrow> element \<Rightarrow> pyerr + message list" where
  "check_zero_impedance fl root_el =
     efold (\<lambda>eq_inj warnings.
              ebind (check_injection fl eq_inj) (\<lambda>found. Inr (warnings @ found)))
       (findall root_el ''EquivalentInjection'') []"

subsection \<open>Check 6: the text of the file\<close>

text \<open>
  The file is read a second time, as text. The outcome of \<open>open\<close> and \<open>read\<close> is an input
  of the model: \<open>Inl\<close> the message of the exception, \<open>Inr\<close> the content. The check returns
  the entries for \<open>errors\<close> and those for \<open>warnings\<close>.
\<close>

definition check_xml_structure :: "string + string \<Rightarrow> message list \<times> message list" where
  "check_xml_structure file_read =
     (case file_read of
        Inl e \<Rightarrow> ([], [XmlNotChecked e])
      | Inr xml_content \<Rightarrow>
          ((if py_in ''<md:FullModel'' xml_content \<and> \<not> py_in ''</md:FullModel>'' xml_content
            then [MissingClosingTag] else [])
           @ (if py_in (''bf2a4896-2e92-465b-b5f9-b033993a318'' @ [CHR 0x22]) xml_content
              then [IncompleteMRID] else [])
           @ (if py_in ''<cim:IdentifiedObject.lname>'' xml_content then [TypoLname] else []),
           []))"

subsection \<open>The whole of question 6\<close>

record q6_report =
  errors :: "message list"
  warnings :: "message list"

text \<open>
  The checks run in the order of the source; the two lists are printed only after the last
  check, so an exception in a check leaves nothing of them.
\<close>

definition analyze_question_6 :: "float_of \<Rightarrow> element \<Rightarrow> string + string \<Rightarrow> pyerr + q6_report" where
  "analyze_question_6 fl root_el file_read =
     (let e1 = check_duplicate_mrids root_el;
          e2 = check_transformer_ends root_el
      in ebind (check_limit_order fl root_el) (\<lambda>e3.
           let w4 = check_voltage_levels fl root_el
           in ebind (check_zero_impedance fl root_el) (\<lambda>w5.
                case check_xml_structure file_read of (e6, w6) \<Rightarrow>
                  Inr \<lparr>errors = e1 @ e2 @ e3 @ e6, warnings = w4 @ w5 @ w6\<rparr>)))"

section \<open>Loading the file and running the analyses\<close>

text \<open>
  \<open>ET.parse\<close> is the library's: its outcome is an input of the model, \<open>Inl\<close> the message
  of the exception it raised (a \<open>ParseError\<close> for XML that is not well formed), \<open>Inr\<close> the
  root of the tree. \<open>parse_cgmes_file\<close> catches every exception, prints it and returns
  \<open>(None, None)\<close>; on success it returns the tree and its root. The result type has a
  left summand for an exception leaving the function; no branch produces one.
\<close>

datatype load_line = FileLoaded | LoadError string

definition parse_cgmes_file ::
  "string + element \<Rightarrow> string + (load_line \<times> element option \<times> element option)" where
  "parse_cgmes_file parsed =
     (case parsed of
        Inr root_el \<Rightarrow> Inr (FileLoaded, Some root_el, Some root_el)
      | Inl e \<Rightarrow> Inr (LoadError e, None, None))"

record analyses =
  a1 :: q1_report
  a2 :: "q2_report option"
  a3 :: "q3_report option"
  a4 :: "q4_report option"
  a5 :: q5_report
  a6 :: q6_report

definition run_analyses ::
  "float_of \<Rightarrow> int_of \<Rightarrow> lower_of \<Rightarrow> element \<Rightarrow> string + string \<Rightarrow> pyerr + analyses" where
  "run_analyses fl pint lw root_el file_read =
     ebind (analyze_question_1 fl root_el) (\<lambda>r1.
     let r2 = analyze_question_2 root_el in
     ebind (analyze_question_3 fl pint root_el) (\<lambda>r3.
     ebind (analyze_question_4 root_el) (\<lambda>r4.
     ebind (analyze_question_5 fl lw root_el) (\<lambda>r5.
     ebind (analyze_question_6 fl root_el file_read) (\<lambda>r6.
       Inr \<lparr>a1 = r1, a2 = r2, a3 = r3, a4 = r4, a5 = r5, a6 = r6\<rparr>)))))"

text \<open>
  What a run of \<open>main\<close> ends with: nothing after a failed load, the message
  \<open>Error during analysis\<close> with the exception, or the reports of the six analyses. What
  the analyses before a failing one had already printed is not recorded.
\<close>

datatype run = NotLoaded | AnalysisFailed pyerr | AnalysisCompleted analyses

definition main ::
  "float_of \<Rightarrow> int_of \<Rightarrow> lower_of \<Rightarrow> string + element \<Rightarrow> string + string \<Rightarrow> string + run" where
  "main fl pint lw parsed file_read =
     (case parse_cgmes_file parsed of
        Inl e \<Rightarrow> Inl e
      | Inr (_, tree, None) \<Rightarrow> Inr NotLoaded
      | Inr (_, tree, Some root_el) \<Rightarrow>
          (case run_analyses fl pint lw root_el file_read of
             Inl e \<Rightarrow> Inr (AnalysisFailed e)
           | Inr r \<Rightarrow> Inr (AnalysisCompleted r)))"

section \<open>Task 1: fetching the two reports\<close>

text \<open>
  \<open>requests.get\<close> is the library's: the HTTP layer is a function from the request to
  its outcome, \<open>Inl\<close> the exception \<open>requests.get\<close> raised (a connection error, a timeout)
  or \<open>Inr\<close> the response. Of a response the model keeps the status code, the
  \<open>Content-Type\<close> header and what \<open>resp.json()\<close> gives (\<open>None\<close> when it raises ValueError).
\<close>

datatype json =
    JNull | JBool bool | JNum rat | JStr string | JArr "json list" | JObj "(string \<times> json) list"

record request =
  req_url :: string
  req_params :: "(string \<times> string) list"
  req_headers :: "(string \<times> string) list"
  req_timeout :: int

record response =
  status_code :: nat
  content_type_header :: "string option"
  json_body :: "json option"

definition API_URL :: string where
  "API_URL = ''https://api-baltic.transparency-dashboard.eu/''"

definition REPORT_ID_AFRR :: string where
  "REPORT_ID_AFRR = ''activations_afrr''"

definition REPORT_ID_IMBALANCE :: string where
  "REPORT_ID_IMBALANCE = ''imbalance_volumes_v2''"

text \<open>The request of \<open>fetch_data\<close>; the two dates of \<open>params\<close> are literals in the source.\<close>

definition fetch_request :: "string \<Rightarrow> string \<Rightarrow> int \<Rightarrow> request" where
  "fetch_request report_id timezone timeout =
     \<lparr>req_url = API_URL @ ''api/v1/export'',
      req_params = [(''id'', report_id),
                    (''start_date'', ''2025-09-22T00:00''),
                    (''end_date'', ''2025-09-22T23:59''),
                    (''output_time_zone'', timezone),
                    (''output_format'', ''json''),
                    (''json_header_groups'', ''0'')],
      req_headers = [(''User-Agent'', ''Mozilla/5.0 (Windows NT 10.0; Win64; x64) AppleWebKit/537.36''),
                     (''Accept'', ''application/json'')],
      req_timeout = timeout\<rparr>"

text \<open>\<open>resp.raise_for_status()\<close> raises HTTPError for a status code from 400 to 599.\<close>

definition raise_for_status :: "response \<Rightarrow> pyerr + unit" where
  "raise_for_status resp =
     (if 400 \<le> status_code resp \<and> status_code resp < 600
      then Inl (HTTPError (status_code resp)) else Inr ())"

text \<open>
  \<open>fetch_data\<close>: neither \<open>requests.get\<close> nor \<open>raise_for_status\<close> stands in a \<open>try\<close>. A
  response that is not JSON raises ValueError, and so does a body that does not parse.
\<close>

definition fetch_data ::
  "lower_of \<Rightarrow> (request \<Rightarrow> pyerr + response) \<Rightarrow> string \<Rightarrow> string \<Rightarrow> string \<Rightarrow> string \<Rightarrow> int
     \<Rightarrow> pyerr + json" where
  "fetch_data lw http report_id start_date end_date timezone timeout =
     ebind (http (fetch_request report_id timezone timeout)) (\<lambda>resp.
     ebind (raise_for_status resp) (\<lambda>_.
       let content_type = lw (case content_type_header resp of None \<Rightarrow> [] | Some h \<Rightarrow> h)
       in if py_in ''text/html'' content_type \<or> \<not> prefix ''application/json'' content_type
          then Inl ValueError
          else (case json_body resp of None \<Rightarrow> Inl ValueError | Some data \<Rightarrow> Inr data)))"

section \<open>Task 1: from the JSON to a data frame\<close>

text \<open>
  The operations of Python on a decoded JSON value that \<open>parse_to_dataframe\<close> uses. An
  object is a \<open>dict\<close>, with distinct keys.
\<close>

text \<open>\<open>k in v\<close>\<close>

definition json_contains :: "string \<Rightarrow> json \<Rightarrow> pyerr + bool" where
  "json_contains k v =
     (case v of
        JObj kvs \<Rightarrow> Inr (k \<in> set (map fst kvs))
      | JArr xs \<Rightarrow> Inr (JStr k \<in> set xs)
      | JStr s \<Rightarrow> Inr (py_in k s)
      | _ \<Rightarrow> Inl TypeError)"

text \<open>\<open>v[k]\<close> for a string \<open>k\<close>\<close>

definition json_getitem :: "json \<Rightarrow> string \<Rightarrow> pyerr + json" where
  "json_getitem v k =
     (case v of
        JObj kvs \<Rightarrow> (case map_of kvs k of None \<Rightarrow> Inl KeyError | Some x \<Rightarrow> Inr x)
      | _ \<Rightarrow> Inl TypeError)"

text \<open>\<open>item.get(k, default)\<close>: only a \<open>dict\<close> has the method.\<close>

definition json_get :: "json \<Rightarrow> string \<Rightarrow> json \<Rightarrow> pyerr + json" where
  "json_get item k dflt =
     (case item of
        JObj kvs \<Rightarrow> Inr (case map_of kvs k of None \<Rightarrow> dflt | Some x \<Rightarrow> x)
      | _ \<Rightarrow> Inl AttributeError)"

fun json_truthy :: "json \<Rightarrow> bool" where
  "json_truthy JNull = False"
| "json_truthy (JBool b) = b"
| "json_truthy (JNum x) = (x \<noteq> 0)"
| "json_truthy (JStr s) = (s \<noteq> [])"
| "json_truthy (JArr xs) = (xs \<noteq> [])"
| "json_truthy (JObj kvs) = (kvs \<noteq> [])"

text \<open>\<open>for item in v\<close>: the elements of a list, the keys of a dict, the letters of a string.\<close>

definition json_iter :: "json \<Rightarrow> pyerr + json list" where
  "json_iter v =
     (case v of
        JArr xs \<Rightarrow> Inr xs
      | JObj kvs \<Rightarrow> Inr (map (\<lambda>kv. JStr (fst kv)) kvs)
      | JStr s \<Rightarrow> Inr (map (\<lambda>c. JStr [c]) s)
      | _ \<Rightarrow> Inl TypeError)"

text \<open>\<open>sum(values)\<close>: numbers and booleans add up, anything else raises TypeError.\<close>

definition json_number :: "json \<Rightarrow> pyerr + rat" where
  "json_number v =
     (case v of
        JNum x \<Rightarrow> Inr x
      | JBool b \<Rightarrow> Inr (if b then 1 else 0)
      | _ \<Rightarrow> Inl TypeError)"

definition json_sum :: "json \<Rightarrow> pyerr + rat" where
  "json_sum values =
     ebind (json_iter values) (\<lambda>xs.
       efold (\<lambda>x total. ebind (json_number x) (\<lambda>n. Inr (total + n))) xs 0)"

text \<open>The body of the loop over the items of the time series.\<close>

definition record_of :: "json \<Rightarrow> pyerr + json \<times> rat" where
  "record_of item =
     ebind (json_get item ''from'' JNull) (\<lambda>timestamp.
     ebind (json_get item ''values'' (JArr [])) (\<lambda>values.
     ebind (if json_truthy values then json_sum values else Inr 0) (\<lambda>total_value.
       Inr (timestamp, total_value))))"

text \<open>\<open>for ... : records.append(...)\<close>, stopping at the first exception.\<close>

fun emap :: "('a \<Rightarrow> pyerr + 'b) \<Rightarrow> 'a list \<Rightarrow> pyerr + 'b list" where
  "emap f [] = Inr []"
| "emap f (x # xs) =
     (case f x of
        Inl e \<Rightarrow> Inl e
      | Inr y \<Rightarrow> (case emap f xs of Inl e \<Rightarrow> Inl e | Inr ys \<Rightarrow> Inr (y # ys)))"

text \<open>
  A data frame with the one column \<open>value\<close>: the index labels, which are times, with
  their values. \<open>pd.to_datetime(..., errors='coerce')\<close> is a parameter \<open>to_datetime\<close> of the
  model, from the column of timestamps to the column of times, \<open>None\<close> for \<open>NaT\<close>; the
  rows of \<open>NaT\<close> are dropped and the rest is sorted by time.
\<close>

type_synonym frame = "(int \<times> rat) list"

definition parse_to_dataframe :: "(json list \<Rightarrow> int option list) \<Rightarrow> json \<Rightarrow> pyerr + frame" where
  "parse_to_dataframe to_datetime data =
     ebind (json_contains ''data'' data) (\<lambda>has_data.
       if \<not> has_data then Inl ValueError
       else
         ebind (json_getitem data ''data'') (\<lambda>inner.
         ebind (json_contains ''timeseries'' inner) (\<lambda>has_series.
           if \<not> has_series then Inl ValueError
           else
             ebind (json_getitem inner ''timeseries'') (\<lambda>timeseries.
               if \<not> json_truthy timeseries then Inl ValueError
               else
                 ebind (json_iter timeseries) (\<lambda>items.
                 ebind (emap record_of items) (\<lambda>records.
                   Inr (sort_key fst
                          (concat (map (\<lambda>tv. case fst tv of None \<Rightarrow> [] | Some t \<Rightarrow> [(t, snd tv)])
                                     (zip (to_datetime (map fst records)) (map snd records)))))))))))"

section \<open>Task 1: the metrics\<close>

text \<open>
  A cell of a series: a number, or missing (\<open>NaN\<close>, \<open>pd.NA\<close>). Floats are modelled by the
  rational numbers they denote. What the division of a series gives where the divisor is
  zero (an infinity, or ZeroDivisionError on a series of objects) is a parameter
  \<open>zero_div\<close> of the model, applied to the dividend.
\<close>

datatype cell = Num rat | NA

text \<open>
  \<open>df.reindex(all_times)\<close>: a label the frame does not have gets a missing value. A frame
  with a repeated index label cannot be reindexed: pandas raises ValueError (\<open>cannot
  reindex on an axis with duplicate labels\<close>).
\<close>

definition reindex :: "frame \<Rightarrow> int list \<Rightarrow> pyerr + (int \<times> cell) list" where
  "reindex df all_times =
     (if distinct (map fst df)
      then Inr (map (\<lambda>t. (t, case map_of df t of None \<Rightarrow> NA | Some v \<Rightarrow> Num v)) all_times)
      else Inl ValueError)"

fun cell_abs :: "cell \<Rightarrow> cell" where
  "cell_abs (Num x) = Num \<bar>x\<bar>"
| "cell_abs NA = NA"

text \<open>\<open>.replace(0, pd.NA)\<close>\<close>

fun replace_zero :: "cell \<Rightarrow> cell" where
  "replace_zero (Num x) = (if x = 0 then NA else Num x)"
| "replace_zero NA = NA"

definition cell_div :: "(cell \<Rightarrow> pyerr + cell) \<Rightarrow> cell \<Rightarrow> cell \<Rightarrow> pyerr + cell" where
  "cell_div zero_div a b =
     (case b of
        NA \<Rightarrow> Inr NA
      | Num y \<Rightarrow>
          if y = 0 then zero_div a
          else (case a of NA \<Rightarrow> Inr NA | Num x \<Rightarrow> Inr (Num (x / y))))"

record metric_row =
  m_time :: int
  afrr_activation :: cell
  imbalance :: cell
  ratio_abs :: cell

definition calculate_metrics ::
  "(cell \<Rightarrow> pyerr + cell) \<Rightarrow> frame \<Rightarrow> frame \<Rightarrow> pyerr + metric_row list" where
  "calculate_metrics zero_div afrr_df imbalance_df =
     (let all_times = sort (remdups (map fst afrr_df @ map fst imbalance_df)) in
      ebind (reindex afrr_df all_times) (\<lambda>afrr_aligned.
      ebind (reindex imbalance_df all_times) (\<lambda>imbalance_aligned.
        let afrr_abs = map (\<lambda>tv. cell_abs (snd tv)) afrr_aligned;
            imbalance_abs = map (\<lambda>tv. cell_abs (snd tv)) imbalance_aligned
        in ebind (emap (\<lambda>ab. cell_div zero_div (fst ab) (snd ab))
                    (zip afrr_abs (map replace_zero imbalance_abs))) (\<lambda>ratio.
             Inr (map (\<lambda>r. \<lparr>m_time = fst r, afrr_activation = fst (snd r),
                              imbalance = fst (snd (snd r)), ratio_abs = snd (snd (snd r))\<rparr>)
                    (zip all_times
                       (zip (map snd afrr_aligned) (zip (map snd imbalance_aligned) ratio))))))))"

section \<open>Task 1: the pipeline\<close>

text \<open>
  \<open>datetime.fromisoformat\<close> is a parameter: it gives the date in the form \<open>%Y-%m-%d\<close>, or
  \<open>None\<close> where it raises ValueError.
\<close>

definition get_day_range :: "(string \<Rightarrow> string option) \<Rightarrow> string \<Rightarrow> pyerr + string \<times> string" where
  "get_day_range fromisoformat date_str =
     (case fromisoformat date_str of
        None \<Rightarrow> Inl ValueError
      | Some day \<Rightarrow> Inr (day @ ''T00:00'', day @ ''T23:59''))"

text \<open>
  What \<open>main\<close> takes from outside: the arguments of the command line, the outcome of
  creating the output directory, the HTTP layer, the two conversions of the libraries,
  \<open>str.lower\<close>, the division by zero of a series, and the writing of the CSV file, the
  plots and the report, which is taken as one step.
\<close>

record env =
  arg_date :: string
  arg_timeout :: int
  mkdir :: "pyerr + unit"
  fromisoformat :: "string \<Rightarrow> string option"
  http :: "request \<Rightarrow> pyerr + response"
  to_datetime :: "json list \<Rightarrow> int option list"
  str_lower :: lower_of
  zero_div :: "cell \<Rightarrow> pyerr + cell"
  write_outputs :: "metric_row list \<Rightarrow> pyerr + unit"

text \<open>\<open>main\<close> of task 1 has no \<open>try\<close>: every exception of a step leaves it.\<close>

definition task1_main :: "env \<Rightarrow> pyerr + metric_row list" where
  "task1_main ev =
     ebind (mkdir ev) (\<lambda>_.
     ebind (get_day_range (fromisoformat ev) (arg_date ev)) (\<lambda>range.
     ebind (fetch_data (str_lower ev) (http ev) REPORT_ID_AFRR (fst range) (snd range) ''EET''
              (arg_timeout ev)) (\<lambda>afrr_data.
     ebind (parse_to_dataframe (to_datetime ev) afrr_data) (\<lambda>afrr_df.
     ebind (fetch_data (str_lower ev) (http ev) REPORT_ID_IMBALANCE (fst range) (snd range) ''EET''
              (arg_timeout ev)) (\<lambda>imbalance_data.
     ebind (parse_to_dataframe (to_datetime ev) imbalance_data) (\<lambda>imbalance_df.
     ebind (calculate_metrics (zero_div ev) afrr_df imbalance_df) (\<lambda>metrics_df.
     ebind (write_outputs ev metrics_df) (\<lambda>_. Inr metrics_df))))))))"

section \<open>Notions the properties are stated with\<close>

text \<open>
  An element carries the identifier \<open>i\<close> when one of its children has a tag containing
  \<open>mRID\<close> and the text \<open>i\<close>; \<open>carriers\<close> lists the elements of the document that do, in
  document order (two elements that look alike are two entries).
\<close>

definition carries :: "string \<Rightarrow> element \<Rightarrow> bool" where
  "carries i e = list_ex (\<lambda>c. py_in ''mRID'' (tag c) \<and> el_text c = Some i) (children e)"

definition carriers :: "element \<Rightarrow> string \<Rightarrow> element list" where
  "carriers root_el i = filter (carries i) (et_iter root_el)"

text \<open>The pairs (identifier, local tag name) in the order the duplicate check meets them.\<close>

definition child_hits :: "element \<Rightarrow> element list \<Rightarrow> (string \<times> string) list" where
  "child_hits e cs =
     concat (map (\<lambda>c. if py_in ''mRID'' (tag c) \<and> truthy (el_text c)
                        then [(the (el_text c), split_last (tag e) ''}'')] else []) cs)"

definition hits :: "element list \<Rightarrow> (string \<times> string) list" where
  "hits es = concat (map (\<lambda>e. child_hits e (children e)) es)"

section \<open>Sample documents\<close>

text \<open>
  A lower-casing of the ASCII letters, to put in the place of \<open>str.lower\<close> on the ASCII
  strings of the sample documents.
\<close>

definition lower_char :: "char \<Rightarrow> char" where
  "lower_char c =
     (case map_of (zip ''ABCDEFGHIJKLMNOPQRSTUVWXYZ'' ''abcdefghijklmnopqrstuvwxyz'') c of
        Some l \<Rightarrow> l
      | None \<Rightarrow> c)"

definition lower :: lower_of where
  "lower s = map lower_char s"

text \<open>
  A reader of plain decimal numerals (an optional sign, digits, an optional fraction), to
  put in the place of \<open>float\<close> and \<open>int\<close> when a property is run on a document.
\<close>

definition digit_val :: "char \<Rightarrow> nat option" where
  "digit_val c = map_of (zip ''0123456789'' [0, 1, 2, 3, 4, 5, 6, 7, 8, 9]) c"

fun dec_digits :: "nat \<Rightarrow> string \<Rightarrow> nat option" where
  "dec_digits acc [] = Some acc"
| "dec_digits acc (c # cs) =
     (case digit_val c of None \<Rightarrow> None | Some d \<Rightarrow> dec_digits (10 * acc + d) cs)"

definition dec_nat :: "string \<Rightarrow> nat option" where
  "dec_nat s = (if s = [] then None else dec_digits 0 s)"

definition dec_int :: int_of where
  "dec_int s =
     (case s of
        [] \<Rightarrow> None
      | c # cs \<Rightarrow> if c = CHR ''-'' then map_option (\<lambda>n. - int n) (dec_nat cs)
                  else map_option int (dec_nat s))"

definition dec_unsigned :: "string \<Rightarrow> rat option" where
  "dec_unsigned s =
     (let ip = takeWhile (\<lambda>c. c \<noteq> CHR ''.'') s;
          fp = drop 1 (dropWhile (\<lambda>c. c \<noteq> CHR ''.'') s)
      in case dec_nat ip of
           None \<Rightarrow> None
         | Some i \<Rightarrow>
             if CHR ''.'' \<notin> set s then Some (of_nat i)
             else (case dec_nat fp of
                     None \<Rightarrow> None
                   | Some f \<Rightarrow> Some (of_nat i + of_nat f / 10 ^ length fp)))"

definition dec_float :: float_of where
  "dec_float s =
     (case s of
        [] \<Rightarrow> None
      | c # cs \<Rightarrow> if c = CHR ''-'' then map_option uminus (dec_unsigned cs)
                  else dec_unsigned s)"

definition cim_leaf :: "string \<Rightarrow> string \<Rightarrow> element" where
  "cim_leaf name txt = Element (full_tag cim name) [] (Some txt) []"

definition cim_ref :: "string \<Rightarrow> string \<Rightarrow> element" where
  "cim_ref name res = Element (full_tag cim name) [(full_tag rdf ''resource'', res)] None []"

definition cim_node :: "string \<Rightarrow> element list \<Rightarrow> element" where
  "cim_node name cs = Element (full_tag cim name) [] None cs"

definition rdf_root :: "element list \<Rightarrow> element" where
  "rdf_root cs = Element (full_tag rdf ''RDF'') [] None cs"

text \<open>The same mRID on a terminal and on a line segment.\<close>

definition doc_duplicate :: element where
  "doc_duplicate = rdf_root
     [cim_node ''Terminal''
        [cim_leaf ''IdentifiedObject.mRID'' ''A'', cim_leaf ''IdentifiedObject.name'' ''T1''],
      cim_node ''ACLineSegment'' [cim_leaf ''IdentifiedObject.mRID'' ''A''],
      cim_node ''BaseVoltage'' [cim_leaf ''IdentifiedObject.mRID'' ''B'']]"

text \<open>
  A limit set \<open>LS1\<close> with one current limit of type PATL and one of type TATL, of the
  values given.
\<close>

definition current_limit :: "string \<Rightarrow> string \<Rightarrow> string \<Rightarrow> element" where
  "current_limit set_ref type_ref v =
     cim_node ''CurrentLimit''
       [cim_ref ''OperationalLimit.OperationalLimitSet'' set_ref,
        cim_leaf ''CurrentLimit.normalValue'' v,
        cim_ref ''OperationalLimit.OperationalLimitType'' type_ref]"

definition limit_set_LS1 :: element where
  "limit_set_LS1 = cim_node ''OperationalLimitSet'' [cim_leaf ''IdentifiedObject.mRID'' ''LS1'']"

definition doc_limits :: "string \<Rightarrow> string \<Rightarrow> element" where
  "doc_limits patl tatl = rdf_root
     [limit_set_LS1,
      cim_node ''OperationalLimitType''
        [cim_leaf ''IdentifiedObject.mRID'' ''LTP'', cim_leaf ''IdentifiedObject.name'' ''PATL''],
      cim_node ''OperationalLimitType''
        [cim_leaf ''IdentifiedObject.mRID'' ''LTT'', cim_leaf ''IdentifiedObject.name'' ''TATL''],
      current_limit ''#_LS1'' ''#_LTP'' patl,
      current_limit ''#_LS1'' ''#_LTT'' tatl]"

text \<open>
  What the scan of question 5 reads of a generating unit: the control string, the
  capacity, and whether the unit can be scanned without an exception (it has a name for
  its printed line, and its \<open>maxOperatingP\<close>, when not empty, is a float).
\<close>

definition control_str_of :: "element \<Rightarrow> string" where
  "control_str_of gen_unit =
     (let control_source = get_element_resource gen_unit ''GeneratingUnit.genControlSource''
      in if truthy control_source then split_last (the control_source) ''#'' else ''Not specified'')"

definition capacity_of :: "float_of \<Rightarrow> element \<Rightarrow> rat" where
  "capacity_of fl gen_unit =
     (let max_p = get_element_text gen_unit ''GeneratingUnit.maxOperatingP''
      in if truthy max_p then the (fl (the max_p)) else 0)"

definition generator_of :: "float_of \<Rightarrow> element \<Rightarrow> generator" where
  "generator_of fl gen_unit =
     \<lparr>g_name = get_element_text gen_unit ''IdentifiedObject.name'',
      g_control = control_str_of gen_unit,
      g_max_p = capacity_of fl gen_unit\<rparr>"

definition unit_line_of :: "lower_of \<Rightarrow> element \<Rightarrow> unit_line" where
  "unit_line_of lw gen_unit =
     \<lparr>ul_slack = is_slack_control lw (control_str_of gen_unit),
      ul_name = the (get_element_text gen_unit ''IdentifiedObject.name''),
      ul_control = control_str_of gen_unit,
      ul_max_p = get_element_text gen_unit ''GeneratingUnit.maxOperatingP''\<rparr>"

definition unit_readable :: "float_of \<Rightarrow> element \<Rightarrow> bool" where
  "unit_readable fl gen_unit \<longleftrightarrow>
     get_element_text gen_unit ''IdentifiedObject.name'' \<noteq> None
     \<and> (let max_p = get_element_text gen_unit ''GeneratingUnit.maxOperatingP''
        in truthy max_p \<longrightarrow> fl (the max_p) \<noteq> None)"

text \<open>The first element of a list whose key no element of the list exceeds.\<close>

definition first_largest :: "('a \<Rightarrow> rat) \<Rightarrow> 'a list \<Rightarrow> 'a option" where
  "first_largest key xs = List.find (\<lambda>g. \<forall>h \<in> set xs. key h \<le> key g) xs"

text \<open>Generating units with a name, a control source and, optionally, a capacity.\<close>

definition gen_unit :: "string \<Rightarrow> string \<Rightarrow> string option \<Rightarrow> element" where
  "gen_unit name control max_p =
     cim_node ''GeneratingUnit''
       ([cim_leaf ''IdentifiedObject.name'' name,
         cim_ref ''GeneratingUnit.genControlSource'' control]
        @ (case max_p of None \<Rightarrow> [] | Some v \<Rightarrow> [cim_leaf ''GeneratingUnit.maxOperatingP'' v]))"

definition off_agc :: string where
  "off_agc = ''http://iec.ch/TC57/CIM100#GeneratorControlSource.offAGC''"

definition on_agc :: string where
  "on_agc = ''http://iec.ch/TC57/CIM100#GeneratorControlSource.onAGC''"

definition doc_off_agc :: element where
  "doc_off_agc = rdf_root
     [gen_unit ''G1'' off_agc (Some ''300''),
      gen_unit ''G2'' off_agc (Some ''500''),
      gen_unit ''G3'' off_agc (Some ''500'')]"

definition doc_on_agc :: element where
  "doc_on_agc = rdf_root
     [gen_unit ''G1'' off_agc (Some ''300''),
      gen_unit ''G2'' on_agc (Some ''500'')]"

text \<open>A generating unit without a name.\<close>

definition unnamed_unit :: "string \<Rightarrow> string \<Rightarrow> element" where
  "unnamed_unit control max_p =
     cim_node ''GeneratingUnit''
       [cim_ref ''GeneratingUnit.genControlSource'' control,
        cim_leaf ''GeneratingUnit.maxOperatingP'' max_p]"

definition doc_unnamed :: element where
  "doc_unnamed = rdf_root
     [gen_unit ''G1'' off_agc (Some ''300''),
      unnamed_unit off_agc ''500'']"

definition doc_no_capacity :: element where
  "doc_no_capacity = rdf_root
     [gen_unit ''G1'' off_agc (Some ''-5''),
      gen_unit ''G2'' off_agc None,
      gen_unit ''G3'' off_agc (Some ''0'')]"

text \<open>
  What question 3 reads of a transformer end: whether its reference matches the
  transformer id, and the winding its fields give when all three convert.
\<close>

definition tf_end_matches :: "string \<Rightarrow> element \<Rightarrow> bool" where
  "tf_end_matches tid tf_end =
     (let tf_ref = get_element_resource tf_end ''PowerTransformerEnd.PowerTransformer''
      in truthy tf_ref \<and> py_in tid (the tf_ref))"

definition connection_of :: "element \<Rightarrow> string" where
  "connection_of tf_end =
     (let connection = get_element_resource tf_end ''PowerTransformerEnd.connectionKind''
      in if truthy connection then split_last (the connection) ''#'' else ''N/A'')"

definition winding_of :: "float_of \<Rightarrow> int_of \<Rightarrow> element \<Rightarrow> winding option" where
  "winding_of fl pint tf_end =
     (case (py_int pint (get_element_text tf_end ''TransformerEnd.endNumber''),
            py_float fl (get_element_text tf_end ''PowerTransformerEnd.ratedU''),
            py_float fl (get_element_text tf_end ''PowerTransformerEnd.ratedS'')) of
        (Inr e, Inr u, Inr s) \<Rightarrow> Some \<lparr>w_end = e, w_u = u, w_s = s, w_conn = connection_of tf_end\<rparr>
      | _ \<Rightarrow> None)"

text \<open>
  The ratio in the words of the specification: of the two ends of largest rated voltage,
  the larger voltage over the smaller.
\<close>

definition ratio_of_two_largest :: "winding list \<Rightarrow> rat option" where
  "ratio_of_two_largest ws =
     (case rev (sort_key w_u ws) of
        a # b # _ \<Rightarrow> Some (w_u a / w_u b)
      | _ \<Rightarrow> None)"

text \<open>A transformer \<open>T1\<close> and its ends.\<close>

definition tf_end :: "string \<Rightarrow> string \<Rightarrow> string \<Rightarrow> string \<Rightarrow> element" where
  "tf_end tf_ref end_num rated_u rated_s =
     cim_node ''PowerTransformerEnd''
       [cim_ref ''PowerTransformerEnd.PowerTransformer'' tf_ref,
        cim_leaf ''TransformerEnd.endNumber'' end_num,
        cim_leaf ''PowerTransformerEnd.ratedU'' rated_u,
        cim_leaf ''PowerTransformerEnd.ratedS'' rated_s]"

definition transformer_T1 :: element where
  "transformer_T1 = cim_node ''PowerTransformer''
     [cim_leaf ''IdentifiedObject.mRID'' ''T1'', cim_leaf ''IdentifiedObject.name'' ''TR1'']"

definition doc_two_windings :: element where
  "doc_two_windings = rdf_root
     [transformer_T1,
      tf_end ''#_T1'' ''2'' ''150'' ''1000'',
      tf_end ''#_T1'' ''1'' ''400'' ''1000'']"

definition doc_three_windings :: element where
  "doc_three_windings = rdf_root
     [transformer_T1,
      tf_end ''#_T1'' ''1'' ''400'' ''1000'',
      tf_end ''#_T1'' ''2'' ''20'' ''1000'',
      tf_end ''#_T1'' ''3'' ''150'' ''1000'']"

text \<open>
  A generating unit \<open>G1\<close> and a synchronous machine whose reference names a unit \<open>G9\<close>
  that the document does not hold.
\<close>

definition machine_G9 :: element where
  "machine_G9 = cim_node ''SynchronousMachine''
     [cim_leaf ''IdentifiedObject.mRID'' ''M1'',
      cim_leaf ''IdentifiedObject.name'' ''NL-G9'',
      cim_ref ''RotatingMachine.GeneratingUnit'' ''#_G9'',
      cim_leaf ''RotatingMachine.ratedPowerFactor'' ''0.9'',
      cim_leaf ''RotatingMachine.ratedS'' ''600'']"

definition unit_G1 :: element where
  "unit_G1 = cim_node ''GeneratingUnit''
     [cim_leaf ''IdentifiedObject.mRID'' ''G1'',
      cim_leaf ''IdentifiedObject.name'' ''Gen1'',
      cim_ref ''GeneratingUnit.genControlSource'' on_agc,
      cim_leaf ''GeneratingUnit.maxOperatingP'' ''500'']"

definition row_G1 :: gen_unit_row where
  "row_G1 = \<lparr>gu_name = Some ''Gen1'', gu_max_p = 500, gu_min_p = 0, gu_nominal_p = 0,
             gu_power_factor = None, gu_rated_s = None\<rparr>"

definition doc_dangling :: element where
  "doc_dangling = rdf_root [unit_G1, machine_G9]"

text \<open>
  A document in which two elements share the mRID \<open>A\<close> and a current limit of the limit
  set \<open>LS1\<close> has the value \<open>abc\<close>.
\<close>

definition doc_bad_limit :: element where
  "doc_bad_limit = rdf_root
     [cim_node ''Terminal'' [cim_leaf ''IdentifiedObject.mRID'' ''A''],
      cim_node ''ACLineSegment'' [cim_leaf ''IdentifiedObject.mRID'' ''A''],
      limit_set_LS1,
      cim_node ''OperationalLimitType''
        [cim_leaf ''IdentifiedObject.mRID'' ''LTP'', cim_leaf ''IdentifiedObject.name'' ''PATL''],
      current_limit ''#_LS1'' ''#_LTP'' ''abc'']"

text \<open>The text of a file with none of the patterns check 6 looks for.\<close>

definition plain_text :: string where
  "plain_text = ''<rdf:RDF></rdf:RDF>''"

text \<open>An equivalent injection whose resistance is not a number.\<close>

definition doc_bad_injection :: element where
  "doc_bad_injection = rdf_root
     [cim_node ''EquivalentInjection''
        [cim_leaf ''IdentifiedObject.name'' ''Inj1'',
         cim_leaf ''EquivalentInjection.r'' ''abc'',
         cim_leaf ''EquivalentInjection.x'' ''0'']]"

text \<open>
  The ratio of two cells where the divisor is not zero: missing when either is missing.
\<close>

definition ratio_of :: "cell \<Rightarrow> cell \<Rightarrow> cell" where
  "ratio_of a b =
     (case b of
        NA \<Rightarrow> NA
      | Num y \<Rightarrow> if y = 0 then NA else (case a of NA \<Rightarrow> NA | Num x \<Rightarrow> Num (x / y)))"

text \<open>The cell of a frame at a label.\<close>

definition cell_at :: "frame \<Rightarrow> int \<Rightarrow> cell" where
  "cell_at df t = (case map_of df t of None \<Rightarrow> NA | Some v \<Rightarrow> Num v)"

text \<open>
  Two frames: activation at the times 0, 1 and 2, imbalance at the times 1, 2 and 3, zero
  at the time 2.
\<close>

definition afrr_sample :: frame where
  "afrr_sample = [(0, 4), (1, - 6), (2, 5)]"

definition imbalance_sample :: frame where
  "imbalance_sample = [(1, 12), (2, 0), (3, 7)]"

text \<open>
  A report with two items of the same time, and the frame \<open>parse_to_dataframe\<close> makes of
  it: the label 1 is repeated.
\<close>

definition repeated_body :: json where
  "repeated_body = JObj [(''data'', JObj [(''timeseries'',
     JArr [JObj [(''from'', JStr ''2025-09-22T00:00:00''), (''values'', JArr [JNum 4])],
           JObj [(''from'', JStr ''2025-09-22T00:00:00''), (''values'', JArr [JNum 5])]])])]"

definition afrr_repeated :: frame where
  "afrr_repeated = [(1, 4), (1, 5)]"

text \<open>An HTTP layer that times out, and one that answers the second report with 503.\<close>

definition afrr_body :: json where
  "afrr_body = JObj [(''data'', JObj [(''timeseries'',
     JArr [JObj [(''from'', JStr ''2025-09-22T00:00:00''), (''values'', JArr [JNum 4, JNum 1])]])])]"

definition http_unavailable :: "request \<Rightarrow> pyerr + response" where
  "http_unavailable req =
     (if map_of (req_params req) ''id'' = Some REPORT_ID_AFRR
      then Inr \<lparr>status_code = 200, content_type_header = Some ''application/json; charset=utf-8'',
                json_body = Some afrr_body\<rparr>
      else Inr \<lparr>status_code = 503, content_type_header = Some ''text/html'', json_body = None\<rparr>)"

definition env_sample :: "(request \<Rightarrow> pyerr + response) \<Rightarrow> env" where
  "env_sample layer =
     \<lparr>arg_date = ''2025-09-22'', arg_timeout = 30, mkdir = Inr (),
      fromisoformat = (\<lambda>s. Some s), http = layer,
      to_datetime = (\<lambda>xs. map (\<lambda>x. Some 0) xs),
      str_lower = lower,
      zero_div = (\<lambda>a. Inl ZeroDivisionError),
      write_outputs = (\<lambda>m. Inr ())\<rparr>"

section \<open>Properties of the duplicate check\<close>

lemma fold_note_child:
  "fold (note_child e) cs d = fold (\<lambda>h. dict_append (fst h) (snd h)) (child_hits e cs) d"
  by (induction cs arbitrary: d) (simp_all add: child_hits_def note_child_def)

lemma fold_elements:
  "fold (\<lambda>element mrids. fold (note_child element) (children element) mrids) es d
   = fold (\<lambda>h. dict_append (fst h) (snd h)) (hits es) d"
  by (induction es arbitrary: d) (simp_all add: hits_def fold_note_child)

lemma map_of_dict_append:
  "map_of (dict_append k v d) =
     (map_of d)(k \<mapsto> (case map_of d k of None \<Rightarrow> [v] | Some vs \<Rightarrow> vs @ [v]))"
  by (induction d) (auto simp: fun_eq_iff)

lemma keys_dict_append:
  "map fst (dict_append k v d) = (if k \<in> fst ` set d then map fst d else map fst d @ [k])"
proof (induction d)
  case Nil
  then show ?case by simp
next
  case (Cons a d)
  obtain k' vs where a: "a = (k', vs)" by (cases a)
  show ?case using Cons by (cases "k = k'") (simp_all add: a image_iff)
qed

lemma distinct_dict_append: "distinct (map fst d) \<Longrightarrow> distinct (map fst (dict_append k v d))"
  by (simp add: keys_dict_append)

lemma distinct_fold_dict:
  "distinct (map fst d) \<Longrightarrow> distinct (map fst (fold (\<lambda>h. dict_append (fst h) (snd h)) hs d))"
  by (induction hs arbitrary: d) (simp_all add: distinct_dict_append)

lemma map_of_fold_dict:
  "map_of (fold (\<lambda>h. dict_append (fst h) (snd h)) hs d) k =
     (let new = map snd (filter (\<lambda>h. fst h = k) hs) in
      case map_of d k of
        Some vs \<Rightarrow> Some (vs @ new)
      | None \<Rightarrow> if new = [] then None else Some new)"
  by (induction hs arbitrary: d) (auto simp: map_of_dict_append Let_def split: option.splits)

lemma child_hits_key:
  assumes "i \<noteq> []"
  shows "map snd (filter (\<lambda>h. fst h = i) (child_hits e cs))
     = replicate (length (filter (\<lambda>c. py_in ''mRID'' (tag c) \<and> el_text c = Some i) cs))
         (split_last (tag e) ''}'')"
proof (induction cs)
  case Nil
  show ?case by (simp add: child_hits_def)
next
  case (Cons c cs)
  have step: "child_hits e (c # cs)
        = (if py_in ''mRID'' (tag c) \<and> truthy (el_text c)
           then [(the (el_text c), split_last (tag e) ''}'')] else []) @ child_hits e cs"
    by (simp add: child_hits_def)
  show ?case using Cons assms by (cases "el_text c") (auto simp: step)
qed

lemma carries_iff:
  "carries i e \<longleftrightarrow> filter (\<lambda>c. py_in ''mRID'' (tag c) \<and> el_text c = Some i) (children e) \<noteq> []"
  by (auto simp: carries_def list_ex_iff filter_empty_conv)

lemma hits_set:
  "i \<noteq> [] \<Longrightarrow> set (map snd (filter (\<lambda>h. fst h = i) (hits es)))
     = (\<lambda>e. split_last (tag e) ''}'') ` set (filter (carries i) es)"
proof (induction es)
  case Nil
  then show ?case by (simp add: hits_def)
next
  case (Cons e es)
  have h: "hits (e # es) = child_hits e (children e) @ hits es" by (simp add: hits_def)
  show ?case using Cons
    by (auto simp: h child_hits_key carries_iff)
qed

lemma hits_length:
  "i \<noteq> [] \<Longrightarrow> length (filter (carries i) es) \<le> length (filter (\<lambda>h. fst h = i) (hits es))"
proof (induction es)
  case Nil
  then show ?case by simp
next
  case (Cons e es)
  let ?n = "length (filter (\<lambda>c. py_in ''mRID'' (tag c) \<and> el_text c = Some i) (children e))"
  have h: "hits (e # es) = child_hits e (children e) @ hits es" by (simp add: hits_def)
  have "length (map snd (filter (\<lambda>h. fst h = i) (child_hits e (children e)))) = ?n"
    by (simp only: child_hits_key[OF Cons.prems] length_replicate)
  then have k: "length (filter (\<lambda>h. fst h = i) (child_hits e (children e))) = ?n"
    by (simp only: length_map)
  have ih: "length (filter (carries i) es) \<le> length (filter (\<lambda>h. fst h = i) (hits es))"
    using Cons by blast
  have l: "length (filter (\<lambda>h. fst h = i) (hits (e # es)))
            = ?n + length (filter (\<lambda>h. fst h = i) (hits es))"
    by (simp only: h filter_append length_append k)
  have c: "carries i e \<Longrightarrow> 0 < ?n"
    by (simp add: carries_iff)
  have "length (filter (carries i) (e # es)) \<le> ?n + length (filter (carries i) es)"
  proof (cases "carries i e")
    case True
    from c[OF True] have "Suc 0 \<le> ?n" by (rule Suc_leI)
    then show ?thesis by (simp add: True)
  next
    case False
    then show ?thesis by simp
  qed
  with ih l show ?case by linarith
qed

lemma report_no_dup:
  "i \<notin> fst ` set d \<Longrightarrow> DuplicateMRID i \<notin> set (concat (map duplicate_report d))"
  by (induction d) (auto simp: duplicate_report_def split: if_splits)

lemma report_split:
  assumes "distinct (map fst d)" and "map_of d i = Some vs" and "1 < length vs"
  shows "\<exists>pre post. concat (map duplicate_report d)
            = pre @ [DuplicateMRID i, UsedIn (length vs) (set vs)] @ post
          \<and> DuplicateMRID i \<notin> set pre \<and> DuplicateMRID i \<notin> set post"
proof -
  from assms(2) have "(i, vs) \<in> set d" by (rule map_of_SomeD)
  then obtain d1 d2 where d: "d = d1 @ (i, vs) # d2" by (auto dest: split_list)
  with assms(1) have n1: "i \<notin> fst ` set d1" and n2: "i \<notin> fst ` set d2" by auto
  have "concat (map duplicate_report d)
        = concat (map duplicate_report d1) @ [DuplicateMRID i, UsedIn (length vs) (set vs)]
          @ concat (map duplicate_report d2)"
    using assms(3) by (simp add: d duplicate_report_def)
  with report_no_dup[OF n1] report_no_dup[OF n2] show ?thesis by blast
qed

text \<open>
  C2. An identifier carried by more than one element of the document is reported by the
  duplicate check exactly once: the list of errors holds the entry \<open>DUPLICATE mRID: i\<close>
  once, directly followed by its detail line, which names the number of occurrences and
  the set of the local tag names of the elements that carry the identifier.
\<close>

theorem duplicate_mrid_reported_once:
  assumes "i \<noteq> []" and "1 < length (carriers root_el i)"
  shows "\<exists>pre post n. check_duplicate_mrids root_el
            = pre @ [DuplicateMRID i,
                     UsedIn n ((\<lambda>e. split_last (tag e) ''}'') ` set (carriers root_el i))] @ post
          \<and> DuplicateMRID i \<notin> set pre \<and> DuplicateMRID i \<notin> set post
          \<and> length (carriers root_el i) \<le> n"
proof -
  let ?d = "collect_mrids root_el"
  let ?vs = "map snd (filter (\<lambda>h. fst h = i) (hits (et_iter root_el)))"
  note hl = hits_length[OF assms(1), of "et_iter root_el"]
  have c: "?d = fold (\<lambda>h. dict_append (fst h) (snd h)) (hits (et_iter root_el)) []"
    by (simp add: collect_mrids_def fold_elements)
  have dist: "distinct (map fst ?d)" unfolding c by (rule distinct_fold_dict) simp
  have len: "length (carriers root_el i) \<le> length ?vs"
    unfolding carriers_def using hl by (simp only: length_map)
  with assms(2) have ne: "?vs \<noteq> []" by auto
  have m: "map_of ?d i = Some ?vs" unfolding c using ne by (simp add: map_of_fold_dict)
  have s: "set ?vs = (\<lambda>e. split_last (tag e) ''}'') ` set (carriers root_el i)"
    unfolding carriers_def by (rule hits_set[OF assms(1)])
  from len assms(2) have "1 < length ?vs" by simp
  from report_split[OF dist m this] obtain pre post where
    r: "concat (map duplicate_report ?d) = pre @ [DuplicateMRID i, UsedIn (length ?vs) (set ?vs)] @ post"
    and p: "DuplicateMRID i \<notin> set pre" "DuplicateMRID i \<notin> set post"
    by blast
  have "check_duplicate_mrids root_el
          = pre @ [DuplicateMRID i,
                   UsedIn (length ?vs) ((\<lambda>e. split_last (tag e) ''}'') ` set (carriers root_el i))] @ post"
    unfolding check_duplicate_mrids_def r s ..
  with p len show ?thesis by blast
qed

theorem duplicate_mrid_reported_once_witness:
  "''A'' \<noteq> [] \<and> 1 < length (carriers doc_duplicate ''A'')
   \<and> (\<lambda>e. split_last (tag e) ''}'') ` set (carriers doc_duplicate ''A'') = {''Terminal'', ''ACLineSegment''}
   \<and> (\<exists>pre post n. check_duplicate_mrids doc_duplicate
            = pre @ [DuplicateMRID ''A'',
                     UsedIn n ((\<lambda>e. split_last (tag e) ''}'') ` set (carriers doc_duplicate ''A''))] @ post
          \<and> DuplicateMRID ''A'' \<notin> set pre \<and> DuplicateMRID ''A'' \<notin> set post
          \<and> length (carriers doc_duplicate ''A'') \<le> n)"
proof -
  have h1: "''A'' \<noteq> []" by simp
  have h2: "1 < length (carriers doc_duplicate ''A'')" by code_simp
  have h3: "(\<lambda>e. split_last (tag e) ''}'') ` set (carriers doc_duplicate ''A'') = {''Terminal'', ''ACLineSegment''}"
    by code_simp
  from duplicate_mrid_reported_once[OF h1 h2] h1 h2 h3 show ?thesis by blast
qed

section \<open>Running the model on a document\<close>

text \<open>
  Tags are compared through \<open>full_tag\<close>, which is injective in the local name, so that a
  run on a sample document does not compare namespaces letter by letter.
\<close>

lemma full_tag_inject: "full_tag ns a = full_tag ns b \<longleftrightarrow> a = b"
  by (simp add: full_tag_def)

lemma full_tag_cim_rdf: "full_tag cim a \<noteq> full_tag rdf b" "full_tag rdf b \<noteq> full_tag cim a"
  by (simp_all add: full_tag_def)

lemmas element_defs = rdf_root_def cim_node_def cim_leaf_def cim_ref_def
lemmas xml_defs = findall_def et_find_def get_element_text_def get_element_text_ns_def
  get_element_resource_def get_element_resource_ns_def full_tag_inject full_tag_cim_rdf
lemmas num_defs = dec_float_def dec_unsigned_def dec_int_def dec_nat_def digit_val_def
  float_or_none_def float_or_zero_def py_float_def py_int_def format_spec_def ebind_def
lemmas str_defs = split_last_def py_split_def
lemmas limit_defs = check_limit_order_def check_limit_set_def limit_values_def
  scan_current_limit_def find_limit_type_def limit_report_def
  doc_limits_def limit_set_LS1_def current_limit_def

section \<open>Properties of the limit check\<close>

text \<open>
  When the scan of a limit set ends with a PATL value and a TATL value that are both
  non-zero, the check appends the entry citing both values, followed by its hint, exactly
  when the TATL value is below the PATL value, and nothing otherwise.
\<close>

lemma limit_check_nonzero:
  assumes "limit_values fl root_el limit_set = Inr (Some p, Some t)" and "p \<noteq> 0" and "t \<noteq> 0"
  shows "check_limit_set fl root_el limit_set
           = Inr (if t < p then [IllogicalLimit t p, LimitHint] else [])"
  using assms by (simp add: check_limit_set_def ebind_def limit_report_def)

lemma limit_check_spec_examples:
  "check_limit_order dec_float (doc_limits ''1000'' ''900'') = Inr [IllogicalLimit 900 1000, LimitHint]"
  "check_limit_order dec_float (doc_limits ''1000'' ''1100'') = Inr []"
  by (simp_all add: limit_defs element_defs xml_defs num_defs str_defs)

text \<open>
  C1. A limit set whose PATL value is 1000 and whose TATL value is 0: both values resolve
  and the TATL value is below the PATL value, yet the check appends nothing, because
  \<open>if patl_value and tatl_value\<close> takes the float \<open>0.0\<close> for a missing value.
\<close>

theorem limit_check_misses_zero:
  "limit_values dec_float (doc_limits ''1000'' ''0'') limit_set_LS1 = Inr (Some 1000, Some 0)
   \<and> (0::rat) < 1000
   \<and> check_limit_set dec_float (doc_limits ''1000'' ''0'') limit_set_LS1 = Inr []
   \<and> check_limit_order dec_float (doc_limits ''1000'' ''0'') = Inr []"
  by (simp add: limit_defs element_defs xml_defs num_defs str_defs)

section \<open>Properties of the slack detection\<close>

lemma scan_gen_unit_readable:
  assumes "unit_readable fl u"
  shows "scan_gen_unit fl lw u st =
     Inr \<lparr>generators = generators st @ [generator_of fl u],
          slack_found = (slack_found st \<or> is_slack_control lw (control_str_of u)),
          unit_lines = unit_lines st @ [unit_line_of lw u]\<rparr>"
  using assms
  by (auto simp: unit_readable_def scan_gen_unit_def generator_of_def unit_line_of_def
      control_str_of_def capacity_of_def float_or_zero_def py_float_def format_spec_def
      ebind_def Let_def split: option.splits)

lemma efold_scan_readable:
  assumes "\<forall>u \<in> set us. unit_readable fl u"
  shows "efold (scan_gen_unit fl lw) us st =
     Inr \<lparr>generators = generators st @ map (generator_of fl) us,
          slack_found = (slack_found st \<or> (\<exists>u \<in> set us. is_slack_control lw (control_str_of u))),
          unit_lines = unit_lines st @ map (unit_line_of lw) us\<rparr>"
  using assms
proof (induction us arbitrary: st)
  case Nil
  then show ?case by simp
next
  case (Cons u us)
  then show ?case by (simp add: scan_gen_unit_readable disj_ac)
qed

lemma find_append:
  "List.find P (xs @ ys) = (case List.find P xs of None \<Rightarrow> List.find P ys | Some x \<Rightarrow> Some x)"
  by (induction xs) auto

lemma max_by_first:
  assumes "first_largest key pre = Some b"
  shows "first_largest key (pre @ xs) = Some (max_by key b xs)"
  using assms
proof (induction xs arbitrary: pre b)
  case Nil
  then show ?case by simp
next
  case (Cons x xs)
  let ?b = "if key x > key b then x else b"
  from Cons.prems have b: "b \<in> set pre" "\<forall>h \<in> set pre. key h \<le> key b"
    by (auto simp: first_largest_def find_Some_iff)
  have "first_largest key (pre @ [x]) = Some ?b"
  proof (cases "key x > key b")
    case True
    with b have "List.find (\<lambda>g. \<forall>h \<in> set (pre @ [x]). key h \<le> key g) pre = None"
      by (fastforce simp: find_None_iff)
    with True b show ?thesis
      by (auto simp: first_largest_def find_append)
  next
    case False
    have "List.find (\<lambda>g. \<forall>h \<in> set (pre @ [x]). key h \<le> key g) pre
        = List.find (\<lambda>g. \<forall>h \<in> set pre. key h \<le> key g) pre"
      using False b by (intro find_cong) (auto intro: order_trans)
    with False Cons.prems show ?thesis
      by (simp add: first_largest_def find_append)
  qed
  from Cons.IH[OF this] show ?case by simp
qed

lemma largest_first_largest: "largest gens = first_largest g_max_p gens"
proof (cases gens)
  case Nil
  then show ?thesis by (simp add: largest_def first_largest_def)
next
  case (Cons g gs)
  have "first_largest g_max_p [g] = Some g" by (simp add: first_largest_def)
  from max_by_first[OF this, of gs] show ?thesis by (simp add: largest_def Cons)
qed

text \<open>
  C6, as the code has it. In a document whose generating units all have a name and a
  \<open>maxOperatingP\<close> that is empty or a float, the line of a unit is marked SLACK exactly
  when its control string, the part of the control source after the last \<open>#\<close>, contains
  \<open>onAGC\<close> or, once lowered, \<open>slack\<close>. The warning that no explicit slack generator was
  found is given exactly when no unit is marked, and then the recommended unit is the
  first of the units of largest \<open>maxOperatingP\<close>; when a unit is marked, nothing is
  recommended.
\<close>

theorem slack_detection:
  assumes "\<forall>u \<in> set (findall root_el ''GeneratingUnit''). unit_readable fl u"
  shows "\<exists>r. analyze_question_5 fl lw root_el = Inr r
     \<and> map ul_slack (q5_lines r)
         = map (\<lambda>u. py_in ''onAGC'' (control_str_of u) \<or> py_in ''slack'' (lw (control_str_of u)))
             (findall root_el ''GeneratingUnit'')
     \<and> q5_generators r = map (generator_of fl) (findall root_el ''GeneratingUnit'')
     \<and> (no_slack_warning r \<longleftrightarrow>
          (\<forall>u \<in> set (findall root_el ''GeneratingUnit'').
             \<not> py_in ''onAGC'' (control_str_of u) \<and> \<not> py_in ''slack'' (lw (control_str_of u))))
     \<and> recommendation r
         = (if no_slack_warning r then first_largest g_max_p (q5_generators r) else None)"
  by (simp add: analyze_question_5_def efold_scan_readable[OF assms] ebind_def
      largest_first_largest unit_line_of_def is_slack_control_def comp_def)

lemmas q5_defs = unit_readable_def control_str_of_def capacity_of_def generator_of_def
  is_slack_control_def first_largest_def gen_unit_def off_agc_def on_agc_def lower_def lower_char_def

lemma off_agc_units:
  "findall doc_off_agc ''GeneratingUnit''
      = [gen_unit ''G1'' off_agc (Some ''300''), gen_unit ''G2'' off_agc (Some ''500''),
         gen_unit ''G3'' off_agc (Some ''500'')]"
  by (simp add: doc_off_agc_def gen_unit_def element_defs xml_defs)

lemma on_agc_units:
  "findall doc_on_agc ''GeneratingUnit''
      = [gen_unit ''G1'' off_agc (Some ''300''), gen_unit ''G2'' on_agc (Some ''500'')]"
  by (simp add: doc_on_agc_def gen_unit_def element_defs xml_defs)

lemma sample_control_strings:
  "control_str_of (gen_unit n off_agc p) = ''GeneratorControlSource.offAGC''"
  "control_str_of (gen_unit n on_agc p) = ''GeneratorControlSource.onAGC''"
  by (simp_all add: q5_defs element_defs xml_defs str_defs)

lemma sample_control_tests:
  "\<not> py_in ''onAGC'' ''GeneratorControlSource.offAGC''"
  "\<not> py_in ''slack'' (lower ''GeneratorControlSource.offAGC'')"
  "py_in ''onAGC'' ''GeneratorControlSource.onAGC''"
  by (simp_all add: lower_def lower_char_def)

theorem slack_detection_witness:
  "list_all (unit_readable dec_float) (findall doc_off_agc ''GeneratingUnit'')
   \<and> map control_str_of (findall doc_off_agc ''GeneratingUnit'')
       = [''GeneratorControlSource.offAGC'', ''GeneratorControlSource.offAGC'',
          ''GeneratorControlSource.offAGC'']
   \<and> (\<exists>r. analyze_question_5 dec_float lower doc_off_agc = Inr r
          \<and> map ul_slack (q5_lines r) = [False, False, False]
          \<and> no_slack_warning r
          \<and> recommendation r
              = Some \<lparr>g_name = Some ''G2'', g_control = ''GeneratorControlSource.offAGC'', g_max_p = 500\<rparr>)
   \<and> list_all (unit_readable dec_float) (findall doc_on_agc ''GeneratingUnit'')
   \<and> map control_str_of (findall doc_on_agc ''GeneratingUnit'')
       = [''GeneratorControlSource.offAGC'', ''GeneratorControlSource.onAGC'']
   \<and> (\<exists>r. analyze_question_5 dec_float lower doc_on_agc = Inr r
          \<and> map ul_slack (q5_lines r) = [False, True]
          \<and> \<not> no_slack_warning r
          \<and> recommendation r = None)"
proof -
  let ?flag = "\<lambda>u. py_in ''onAGC'' (control_str_of u) \<or> py_in ''slack'' (lower (control_str_of u))"
  have h1: "list_all (unit_readable dec_float) (findall doc_off_agc ''GeneratingUnit'')"
    unfolding off_agc_units by (simp add: q5_defs element_defs xml_defs num_defs)
  have c1: "map control_str_of (findall doc_off_agc ''GeneratingUnit'')
       = [''GeneratorControlSource.offAGC'', ''GeneratorControlSource.offAGC'',
          ''GeneratorControlSource.offAGC'']"
    unfolding off_agc_units by (simp add: sample_control_strings)
  have f1: "map ?flag (findall doc_off_agc ''GeneratingUnit'') = [False, False, False]"
    unfolding off_agc_units by (simp add: sample_control_strings sample_control_tests)
  have gens: "map (generator_of dec_float) (findall doc_off_agc ''GeneratingUnit'')
      = [\<lparr>g_name = Some ''G1'', g_control = ''GeneratorControlSource.offAGC'', g_max_p = 300\<rparr>,
         \<lparr>g_name = Some ''G2'', g_control = ''GeneratorControlSource.offAGC'', g_max_p = 500\<rparr>,
         \<lparr>g_name = Some ''G3'', g_control = ''GeneratorControlSource.offAGC'', g_max_p = 500\<rparr>]"
    unfolding off_agc_units by (simp add: q5_defs element_defs xml_defs num_defs str_defs)
  from h1 have "\<forall>u \<in> set (findall doc_off_agc ''GeneratingUnit''). unit_readable dec_float u"
    by (simp add: list_all_iff)
  from slack_detection[OF this, of lower] obtain r where
    r: "analyze_question_5 dec_float lower doc_off_agc = Inr r"
      "map ul_slack (q5_lines r) = map ?flag (findall doc_off_agc ''GeneratingUnit'')"
      "q5_generators r = map (generator_of dec_float) (findall doc_off_agc ''GeneratingUnit'')"
      "no_slack_warning r \<longleftrightarrow>
          (\<forall>u \<in> set (findall doc_off_agc ''GeneratingUnit'').
             \<not> py_in ''onAGC'' (control_str_of u) \<and> \<not> py_in ''slack'' (lower (control_str_of u)))"
      "recommendation r
         = (if no_slack_warning r then first_largest g_max_p (q5_generators r) else None)"
    by (elim exE conjE)
  from r(4) have w: "no_slack_warning r"
    unfolding off_agc_units by (simp add: sample_control_strings sample_control_tests)
  from r(2) have l: "map ul_slack (q5_lines r) = [False, False, False]"
    unfolding f1 .
  have "recommendation r
      = Some \<lparr>g_name = Some ''G2'', g_control = ''GeneratorControlSource.offAGC'', g_max_p = 500\<rparr>"
    unfolding r(5) r(3) gens using w by (simp add: first_largest_def)
  with r(1) w l have off: "\<exists>r. analyze_question_5 dec_float lower doc_off_agc = Inr r
          \<and> map ul_slack (q5_lines r) = [False, False, False]
          \<and> no_slack_warning r
          \<and> recommendation r
              = Some \<lparr>g_name = Some ''G2'', g_control = ''GeneratorControlSource.offAGC'', g_max_p = 500\<rparr>"
    by (intro exI[of _ r]) simp
  have h2: "list_all (unit_readable dec_float) (findall doc_on_agc ''GeneratingUnit'')"
    unfolding on_agc_units by (simp add: q5_defs element_defs xml_defs num_defs)
  have c2: "map control_str_of (findall doc_on_agc ''GeneratingUnit'')
       = [''GeneratorControlSource.offAGC'', ''GeneratorControlSource.onAGC'']"
    unfolding on_agc_units by (simp add: sample_control_strings)
  have f2: "map ?flag (findall doc_on_agc ''GeneratingUnit'') = [False, True]"
    unfolding on_agc_units by (simp add: sample_control_strings sample_control_tests)
  from h2 have "\<forall>u \<in> set (findall doc_on_agc ''GeneratingUnit''). unit_readable dec_float u"
    by (simp add: list_all_iff)
  from slack_detection[OF this, of lower] obtain q where
    q: "analyze_question_5 dec_float lower doc_on_agc = Inr q"
      "map ul_slack (q5_lines q) = map ?flag (findall doc_on_agc ''GeneratingUnit'')"
      "no_slack_warning q \<longleftrightarrow>
          (\<forall>u \<in> set (findall doc_on_agc ''GeneratingUnit'').
             \<not> py_in ''onAGC'' (control_str_of u) \<and> \<not> py_in ''slack'' (lower (control_str_of u)))"
      "recommendation q
         = (if no_slack_warning q then first_largest g_max_p (q5_generators q) else None)"
    by (elim exE conjE)
  from q(3) have nw: "\<not> no_slack_warning q"
    unfolding on_agc_units by (simp add: sample_control_strings sample_control_tests)
  from q(2) have l2: "map ul_slack (q5_lines q) = [False, True]"
    unfolding f2 .
  from q(4) nw have "recommendation q = None" by simp
  with q(1) nw l2 have on: "\<exists>r. analyze_question_5 dec_float lower doc_on_agc = Inr r
          \<and> map ul_slack (q5_lines r) = [False, True]
          \<and> \<not> no_slack_warning r
          \<and> recommendation r = None"
    by (intro exI[of _ q]) simp
  from h1 c1 off h2 c2 on show ?thesis by (intro conjI)
qed

text \<open>
  Two generating units, both with the control source \<open>offAGC\<close>, the second without a
  name: printing the line of the second unit raises TypeError inside the loop, so that
  neither the warning nor a recommendation is given.
\<close>

theorem unnamed_unit_stops_slack_detection:
  "map control_str_of (findall doc_unnamed ''GeneratingUnit'')
     = [''GeneratorControlSource.offAGC'', ''GeneratorControlSource.offAGC'']
   \<and> map (\<lambda>u. get_element_text u ''IdentifiedObject.name'') (findall doc_unnamed ''GeneratingUnit'')
     = [Some ''G1'', None]
   \<and> analyze_question_5 dec_float lower doc_unnamed = Inl TypeError"
proof -
  have units: "findall doc_unnamed ''GeneratingUnit''
      = [gen_unit ''G1'' off_agc (Some ''300''), unnamed_unit off_agc ''500'']"
    by (simp add: doc_unnamed_def gen_unit_def unnamed_unit_def element_defs xml_defs)
  show ?thesis
    unfolding units analyze_question_5_def
    by (simp add: scan_gen_unit_def is_slack_control_def control_str_of_def gen_unit_def
        unnamed_unit_def off_agc_def lower_def lower_char_def Let_def element_defs xml_defs
        num_defs str_defs)
qed

text \<open>
  C10. A generating unit whose \<open>maxOperatingP\<close> is absent or empty is scanned without a
  conversion to float: it is appended to \<open>generators\<close> with the capacity 0, and only the
  printing of its name can fail. The fallback is chosen among all the units, these
  included, and of several units of largest capacity it is the first in document order.
\<close>

theorem fallback_selection:
  "(\<not> truthy (get_element_text u ''GeneratingUnit.maxOperatingP'') \<longrightarrow>
      scan_gen_unit fl lw u st =
        ebind (format_spec (get_element_text u ''IdentifiedObject.name'')) (\<lambda>n.
          Inr \<lparr>generators = generators st
                 @ [\<lparr>g_name = Some n, g_control = control_str_of u, g_max_p = 0\<rparr>],
               slack_found = (slack_found st \<or> is_slack_control lw (control_str_of u)),
               unit_lines = unit_lines st
                 @ [\<lparr>ul_slack = is_slack_control lw (control_str_of u), ul_name = n,
                     ul_control = control_str_of u,
                     ul_max_p = get_element_text u ''GeneratingUnit.maxOperatingP''\<rparr>]\<rparr>))
   \<and> largest gens = first_largest g_max_p gens
   \<and> ((\<forall>u \<in> set (findall root_el ''GeneratingUnit''). unit_readable fl u)
        \<and> (\<forall>u \<in> set (findall root_el ''GeneratingUnit''). \<not> is_slack_control lw (control_str_of u))
      \<longrightarrow> map_sum id recommendation (analyze_question_5 fl lw root_el)
           = Inr (first_largest g_max_p (map (generator_of fl) (findall root_el ''GeneratingUnit''))))"
proof (intro conjI impI)
  assume "\<not> truthy (get_element_text u ''GeneratingUnit.maxOperatingP'')"
  then show "scan_gen_unit fl lw u st =
        ebind (format_spec (get_element_text u ''IdentifiedObject.name'')) (\<lambda>n.
          Inr \<lparr>generators = generators st
                 @ [\<lparr>g_name = Some n, g_control = control_str_of u, g_max_p = 0\<rparr>],
               slack_found = (slack_found st \<or> is_slack_control lw (control_str_of u)),
               unit_lines = unit_lines st
                 @ [\<lparr>ul_slack = is_slack_control lw (control_str_of u), ul_name = n,
                     ul_control = control_str_of u,
                     ul_max_p = get_element_text u ''GeneratingUnit.maxOperatingP''\<rparr>]\<rparr>)"
    by (simp add: scan_gen_unit_def float_or_zero_def ebind_def format_spec_def control_str_of_def
        Let_def split: option.splits)
next
  show "largest gens = first_largest g_max_p gens" by (rule largest_first_largest)
next
  assume a: "(\<forall>u \<in> set (findall root_el ''GeneratingUnit''). unit_readable fl u)
        \<and> (\<forall>u \<in> set (findall root_el ''GeneratingUnit''). \<not> is_slack_control lw (control_str_of u))"
  then have "\<forall>u \<in> set (findall root_el ''GeneratingUnit''). unit_readable fl u" by blast
  from efold_scan_readable[OF this, of lw] a
  show "map_sum id recommendation (analyze_question_5 fl lw root_el)
           = Inr (first_largest g_max_p (map (generator_of fl) (findall root_el ''GeneratingUnit'')))"
    by (simp add: analyze_question_5_def ebind_def largest_first_largest)
qed

theorem fallback_selection_witness:
  "\<not> truthy (get_element_text (gen_unit ''G2'' off_agc None) ''GeneratingUnit.maxOperatingP'')
   \<and> scan_gen_unit (\<lambda>s. None) lower (gen_unit ''G2'' off_agc None)
        \<lparr>generators = [], slack_found = False, unit_lines = []\<rparr>
      = Inr \<lparr>generators = [\<lparr>g_name = Some ''G2'', g_control = ''GeneratorControlSource.offAGC'', g_max_p = 0\<rparr>],
             slack_found = False,
             unit_lines = [\<lparr>ul_slack = False, ul_name = ''G2'',
                            ul_control = ''GeneratorControlSource.offAGC'', ul_max_p = None\<rparr>]\<rparr>
   \<and> list_all (unit_readable dec_float) (findall doc_no_capacity ''GeneratingUnit'')
   \<and> list_all (\<lambda>u. \<not> is_slack_control lower (control_str_of u)) (findall doc_no_capacity ''GeneratingUnit'')
   \<and> map_sum id recommendation (analyze_question_5 dec_float lower doc_no_capacity)
      = Inr (Some \<lparr>g_name = Some ''G2'', g_control = ''GeneratorControlSource.offAGC'', g_max_p = 0\<rparr>)"
proof -
  let ?u = "gen_unit ''G2'' off_agc None"
  let ?st = "\<lparr>generators = [], slack_found = False, unit_lines = []\<rparr>"
  have c: "control_str_of ?u = ''GeneratorControlSource.offAGC''"
    by (simp add: q5_defs element_defs xml_defs str_defs)
  have s: "\<not> is_slack_control lower ''GeneratorControlSource.offAGC''"
    by (simp add: is_slack_control_def lower_def lower_char_def)
  have n: "get_element_text ?u ''IdentifiedObject.name'' = Some ''G2''"
    by (simp add: gen_unit_def element_defs xml_defs)
  have m: "get_element_text ?u ''GeneratingUnit.maxOperatingP'' = None"
    by (simp add: gen_unit_def element_defs xml_defs)
  then have h0: "\<not> truthy (get_element_text ?u ''GeneratingUnit.maxOperatingP'')" by simp
  have units: "findall doc_no_capacity ''GeneratingUnit''
      = [gen_unit ''G1'' off_agc (Some ''-5''), ?u, gen_unit ''G3'' off_agc (Some ''0'')]"
    by (simp add: doc_no_capacity_def gen_unit_def element_defs xml_defs)
  have h1: "list_all (unit_readable dec_float) (findall doc_no_capacity ''GeneratingUnit'')"
    unfolding units by (simp add: q5_defs element_defs xml_defs num_defs)
  have h2: "list_all (\<lambda>u. \<not> is_slack_control lower (control_str_of u)) (findall doc_no_capacity ''GeneratingUnit'')"
    unfolding units by (simp add: q5_defs element_defs xml_defs str_defs)
  have gens: "map (generator_of dec_float) (findall doc_no_capacity ''GeneratingUnit'')
      = [\<lparr>g_name = Some ''G1'', g_control = ''GeneratorControlSource.offAGC'', g_max_p = - 5\<rparr>,
         \<lparr>g_name = Some ''G2'', g_control = ''GeneratorControlSource.offAGC'', g_max_p = 0\<rparr>,
         \<lparr>g_name = Some ''G3'', g_control = ''GeneratorControlSource.offAGC'', g_max_p = 0\<rparr>]"
    unfolding units by (simp add: q5_defs element_defs xml_defs num_defs str_defs)
  note t = fallback_selection[where u = ?u and fl = "\<lambda>s. None" and lw = lower and st = ?st]
  note t' = fallback_selection[where root_el = doc_no_capacity and fl = dec_float and lw = lower]
  from t h0 have a: "scan_gen_unit (\<lambda>s. None) lower ?u ?st
      = Inr \<lparr>generators = [\<lparr>g_name = Some ''G2'', g_control = ''GeneratorControlSource.offAGC'', g_max_p = 0\<rparr>],
             slack_found = False,
             unit_lines = [\<lparr>ul_slack = False, ul_name = ''G2'',
                            ul_control = ''GeneratorControlSource.offAGC'', ul_max_p = None\<rparr>]\<rparr>"
    by (simp add: c s n m ebind_def format_spec_def)
  from t' h1 h2 have "map_sum id recommendation (analyze_question_5 dec_float lower doc_no_capacity)
      = Inr (first_largest g_max_p (map (generator_of dec_float) (findall doc_no_capacity ''GeneratingUnit'')))"
    by (simp add: list_all_iff)
  then have b: "map_sum id recommendation (analyze_question_5 dec_float lower doc_no_capacity)
      = Inr (Some \<lparr>g_name = Some ''G2'', g_control = ''GeneratorControlSource.offAGC'', g_max_p = 0\<rparr>)"
    unfolding gens by (simp add: first_largest_def)
  from h0 a h1 h2 b show ?thesis by (intro conjI)
qed

section \<open>Properties of the winding query\<close>

lemma add_winding_matches:
  assumes "tf_end_matches tid e" and "winding_of fl pint e = Some w"
  shows "add_winding fl pint tid e ws = Inr (ws @ [w])"
  using assms
  by (auto simp: add_winding_def tf_end_matches_def winding_of_def connection_of_def ebind_def
      Let_def split: sum.splits)

lemma add_winding_other:
  assumes "\<not> tf_end_matches tid e"
  shows "add_winding fl pint tid e ws = Inr ws"
  using assms by (auto simp: add_winding_def tf_end_matches_def Let_def)

lemma efold_add_winding:
  assumes "\<forall>e \<in> set es. tf_end_matches tid e \<longrightarrow> winding_of fl pint e \<noteq> None"
  shows "efold (add_winding fl pint tid) es ws
     = Inr (ws @ map (\<lambda>e. the (winding_of fl pint e)) (filter (tf_end_matches tid) es))"
  using assms
proof (induction es arbitrary: ws)
  case Nil
  then show ?case by simp
next
  case (Cons e es)
  show ?case
  proof (cases "tf_end_matches tid e")
    case True
    with Cons.prems obtain w where w: "winding_of fl pint e = Some w" by auto
    from Cons show ?thesis by (simp add: True w add_winding_matches[OF True w])
  next
    case False
    from Cons show ?thesis by (simp add: False add_winding_other[OF False])
  qed
qed

text \<open>
  C5, as the code has it. For a transformer that is found and whose matching ends all
  convert, the query returns the ends whose reference contains the transformer id, sorted
  by end number; an end is on the high side when its rated voltage exceeds 100; and with
  at least two ends the ratio is the rated voltage of the first end over that of the
  second, in the order of the end numbers.
\<close>

theorem winding_query:
  assumes "List.find (\<lambda>t. get_element_text t ''IdentifiedObject.mRID'' = Some tid)
             (findall root_el ''PowerTransformer'') = Some tr"
    and "\<forall>e \<in> set (findall root_el ''PowerTransformerEnd'').
           tf_end_matches tid e \<longrightarrow> winding_of fl pint e \<noteq> None"
    and "ws = sort_key w_end (map (\<lambda>e. the (winding_of fl pint e))
                (filter (tf_end_matches tid) (findall root_el ''PowerTransformerEnd'')))"
    and "2 \<le> length ws" and "w_u (ws ! 1) \<noteq> 0"
  shows "winding_summary fl pint root_el tid
       = Inr (Some \<lparr>q3_name = get_element_text tr ''IdentifiedObject.name'',
                    q3_windings = ws,
                    q3_sides = map (\<lambda>w. if w_u w > 100 then YG else AG) ws,
                    q3_ratio = Some (w_u (ws ! 0) / w_u (ws ! 1))\<rparr>)
     \<and> sorted (map w_end ws)"
proof -
  from assms(4) obtain w0 w1 rest where ws: "ws = w0 # w1 # rest"
    by (cases ws; cases "tl ws") auto
  with assms(5) have r: "voltage_ratio ws = Inr (Some (w_u (ws ! 0) / w_u (ws ! 1)))"
    by (simp add: voltage_ratio_def)
  have s: "map side_of ws = map (\<lambda>w. if w_u w > 100 then YG else AG) ws"
    by (simp add: side_of_def)
  have "winding_summary fl pint root_el tid
       = Inr (Some \<lparr>q3_name = get_element_text tr ''IdentifiedObject.name'',
                    q3_windings = ws,
                    q3_sides = map (\<lambda>w. if w_u w > 100 then YG else AG) ws,
                    q3_ratio = Some (w_u (ws ! 0) / w_u (ws ! 1))\<rparr>)"
    unfolding winding_summary_def assms(1) efold_add_winding[OF assms(2), of "[]"]
    using r s by (simp add: ebind_def assms(3)[symmetric])
  moreover have "sorted (map w_end ws)" unfolding assms(3) by simp
  ultimately show ?thesis by simp
qed

lemmas q3_defs = tf_end_matches_def winding_of_def connection_of_def tf_end_def transformer_T1_def
  ratio_of_two_largest_def

theorem winding_query_witness:
  "List.find (\<lambda>t. get_element_text t ''IdentifiedObject.mRID'' = Some ''T1'')
      (findall doc_two_windings ''PowerTransformer'') = Some transformer_T1
   \<and> list_all (\<lambda>e. tf_end_matches ''T1'' e \<and> winding_of dec_float dec_int e \<noteq> None)
       (findall doc_two_windings ''PowerTransformerEnd'')
   \<and> winding_summary dec_float dec_int doc_two_windings ''T1''
       = Inr (Some \<lparr>q3_name = Some ''TR1'',
                    q3_windings = [\<lparr>w_end = 1, w_u = 400, w_s = 1000, w_conn = ''N/A''\<rparr>,
                                   \<lparr>w_end = 2, w_u = 150, w_s = 1000, w_conn = ''N/A''\<rparr>],
                    q3_sides = [YG, YG],
                    q3_ratio = Some (8 / 3)\<rparr>)"
proof -
  let ?ws = "[\<lparr>w_end = 1, w_u = 400, w_s = 1000, w_conn = ''N/A''\<rparr>,
              \<lparr>w_end = 2, w_u = 150, w_s = 1000, w_conn = ''N/A''\<rparr>]"
  have ends: "findall doc_two_windings ''PowerTransformerEnd''
      = [tf_end ''#_T1'' ''2'' ''150'' ''1000'', tf_end ''#_T1'' ''1'' ''400'' ''1000'']"
    by (simp add: doc_two_windings_def q3_defs element_defs xml_defs)
  have h1: "List.find (\<lambda>t. get_element_text t ''IdentifiedObject.mRID'' = Some ''T1'')
      (findall doc_two_windings ''PowerTransformer'') = Some transformer_T1"
    by (simp add: doc_two_windings_def q3_defs element_defs xml_defs)
  have w1: "winding_of dec_float dec_int (tf_end ''#_T1'' ''2'' ''150'' ''1000'')
      = Some \<lparr>w_end = 2, w_u = 150, w_s = 1000, w_conn = ''N/A''\<rparr>"
    by (simp add: q3_defs element_defs xml_defs num_defs)
  have w2: "winding_of dec_float dec_int (tf_end ''#_T1'' ''1'' ''400'' ''1000'')
      = Some \<lparr>w_end = 1, w_u = 400, w_s = 1000, w_conn = ''N/A''\<rparr>"
    by (simp add: q3_defs element_defs xml_defs num_defs)
  have m: "tf_end_matches ''T1'' (tf_end ''#_T1'' ''2'' ''150'' ''1000'')"
    "tf_end_matches ''T1'' (tf_end ''#_T1'' ''1'' ''400'' ''1000'')"
    by (simp_all add: q3_defs element_defs xml_defs)
  have h2l: "list_all (\<lambda>e. tf_end_matches ''T1'' e \<and> winding_of dec_float dec_int e \<noteq> None)
       (findall doc_two_windings ''PowerTransformerEnd'')"
    unfolding ends by (simp add: m w1 w2)
  then have h2: "\<forall>e \<in> set (findall doc_two_windings ''PowerTransformerEnd'').
           tf_end_matches ''T1'' e \<longrightarrow> winding_of dec_float dec_int e \<noteq> None"
    by (simp add: list_all_iff)
  have h3: "?ws = sort_key w_end (map (\<lambda>e. the (winding_of dec_float dec_int e))
                (filter (tf_end_matches ''T1'') (findall doc_two_windings ''PowerTransformerEnd'')))"
    unfolding ends by (simp add: m w1 w2)
  have h4: "2 \<le> length ?ws" by simp
  have h5: "w_u (?ws ! 1) \<noteq> 0" by simp
  have n: "get_element_text transformer_T1 ''IdentifiedObject.name'' = Some ''TR1''"
    by (simp add: q3_defs element_defs xml_defs)
  from winding_query[OF h1 h2 h3 h4 h5]
  have "winding_summary dec_float dec_int doc_two_windings ''T1''
       = Inr (Some \<lparr>q3_name = Some ''TR1'', q3_windings = ?ws, q3_sides = [YG, YG],
                    q3_ratio = Some (8 / 3)\<rparr>)"
    by (simp add: n)
  with h1 h2l show ?thesis by (intro conjI)
qed

text \<open>
  Ends 1, 2 and 3 of 400, 20 and 150 kV: the query divides the voltage of end 1 by that
  of end 2 and gives 20, while the two ends of largest rated voltage are those of 400 and
  150 kV, of ratio 8/3.
\<close>

theorem ratio_is_not_of_two_largest:
  "winding_summary dec_float dec_int doc_three_windings ''T1''
       = Inr (Some \<lparr>q3_name = Some ''TR1'',
                    q3_windings = [\<lparr>w_end = 1, w_u = 400, w_s = 1000, w_conn = ''N/A''\<rparr>,
                                   \<lparr>w_end = 2, w_u = 20, w_s = 1000, w_conn = ''N/A''\<rparr>,
                                   \<lparr>w_end = 3, w_u = 150, w_s = 1000, w_conn = ''N/A''\<rparr>],
                    q3_sides = [YG, AG, YG],
                    q3_ratio = Some 20\<rparr>)
   \<and> ratio_of_two_largest [\<lparr>w_end = 1, w_u = 400, w_s = 1000, w_conn = ''N/A''\<rparr>,
                            \<lparr>w_end = 2, w_u = 20, w_s = 1000, w_conn = ''N/A''\<rparr>,
                            \<lparr>w_end = 3, w_u = 150, w_s = 1000, w_conn = ''N/A''\<rparr>] = Some (8 / 3)
   \<and> (20 :: rat) \<noteq> 8 / 3"
  by (simp add: winding_summary_def add_winding_def voltage_ratio_def side_of_def
      doc_three_windings_def q3_defs element_defs xml_defs num_defs)

section \<open>Properties of the reference lookups\<close>

lemmas q1_defs = analyze_question_1_def add_gen_unit_def attach_machine_def print_row_def
lemmas q5_run_defs = analyze_question_5_def scan_gen_unit_def largest_def is_slack_control_def
  lower_def lower_char_def on_agc_def off_agc_def Let_def
lemmas q6_defs = analyze_question_6_def check_duplicate_mrids_def collect_mrids_def note_child_def
  duplicate_report_def check_transformer_ends_def check_voltage_levels_def
  check_zero_impedance_def check_xml_structure_def plain_text_def

text \<open>
  C3, as the code has it. The lookups of questions 1 and 4 take the id after the last
  \<open>#_\<close> of a reference and search for it. When the id is found the record is used; when
  it is not found the reference is passed over: the table of units is left as it was, no
  row is printed, nothing is reported, and no exception is raised.
\<close>

theorem unresolved_reference_passed_over:
  "(get_element_resource sm ''RotatingMachine.GeneratingUnit'' = Some ref
      \<and> Some (split_last ref ''#_'') \<notin> set (map fst units)
    \<longrightarrow> attach_machine fl sm units = Inr units)
   \<and> (get_element_resource sm ''RotatingMachine.GeneratingUnit'' = Some ref \<and> ref \<noteq> []
      \<and> Some (split_last ref ''#_'') \<in> set (map fst units)
      \<and> float_or_none fl (get_element_text sm ''RotatingMachine.ratedPowerFactor'') = Inr pf
      \<and> float_or_none fl (get_element_text sm ''RotatingMachine.ratedS'') = Inr rs
    \<longrightarrow> attach_machine fl sm units
          = Inr (dict_update (Some (split_last ref ''#_''))
                  (\<lambda>row. row\<lparr>gu_power_factor := Some pf, gu_rated_s := Some rs\<rparr>) units))
   \<and> (get_element_resource cl ''OperationalLimit.OperationalLimitType'' = Some ref
      \<and> find_limit_type root_el (split_last ref ''#_'') = None
    \<longrightarrow> limit_row_of root_el seq cl = Inr [])"
  by (auto simp: attach_machine_def limit_row_of_def ebind_def Let_def)

theorem unresolved_reference_passed_over_witness:
  "get_element_resource machine_G9 ''RotatingMachine.GeneratingUnit'' = Some ''#_G9''
   \<and> Some (split_last ''#_G9'' ''#_'') \<notin> set (map fst [(Some ''G1'', row_G1)])
   \<and> attach_machine dec_float machine_G9 [(Some ''G1'', row_G1)] = Inr [(Some ''G1'', row_G1)]
   \<and> Some (split_last ''#_G9'' ''#_'') \<in> set (map fst [(Some ''G9'', row_G1)])
   \<and> float_or_none dec_float (get_element_text machine_G9 ''RotatingMachine.ratedPowerFactor'')
       = Inr (Some (9 / 10))
   \<and> float_or_none dec_float (get_element_text machine_G9 ''RotatingMachine.ratedS'') = Inr (Some 600)
   \<and> attach_machine dec_float machine_G9 [(Some ''G9'', row_G1)]
       = Inr [(Some ''G9'', row_G1\<lparr>gu_power_factor := Some (Some (9 / 10)),
                                    gu_rated_s := Some (Some 600)\<rparr>)]
   \<and> get_element_resource (current_limit ''#_LS1'' ''#_LTX'' ''1000'')
        ''OperationalLimit.OperationalLimitType'' = Some ''#_LTX''
   \<and> find_limit_type (doc_limits ''1000'' ''900'') (split_last ''#_LTX'' ''#_'') = None
   \<and> limit_row_of (doc_limits ''1000'' ''900'') (Some ''1'') (current_limit ''#_LS1'' ''#_LTX'' ''1000'')
       = Inr []"
proof -
  have h1: "get_element_resource machine_G9 ''RotatingMachine.GeneratingUnit'' = Some ''#_G9''"
    by (simp add: machine_G9_def element_defs xml_defs)
  have id: "split_last ''#_G9'' ''#_'' = ''G9''" by (simp add: str_defs)
  have h2: "Some (split_last ''#_G9'' ''#_'') \<notin> set (map fst [(Some ''G1'', row_G1)])"
    by (simp add: id)
  have h2': "Some (split_last ''#_G9'' ''#_'') \<in> set (map fst [(Some ''G9'', row_G1)])"
    by (simp add: id)
  have p1: "float_or_none dec_float (get_element_text machine_G9 ''RotatingMachine.ratedPowerFactor'')
       = Inr (Some (9 / 10))"
    by (simp add: machine_G9_def element_defs xml_defs num_defs)
  have p2: "float_or_none dec_float (get_element_text machine_G9 ''RotatingMachine.ratedS'')
       = Inr (Some 600)"
    by (simp add: machine_G9_def element_defs xml_defs num_defs)
  have h3: "get_element_resource (current_limit ''#_LS1'' ''#_LTX'' ''1000'')
        ''OperationalLimit.OperationalLimitType'' = Some ''#_LTX''"
    by (simp add: current_limit_def element_defs xml_defs)
  have h4: "find_limit_type (doc_limits ''1000'' ''900'') (split_last ''#_LTX'' ''#_'') = None"
    by (simp add: limit_defs element_defs xml_defs str_defs)
  note t = unresolved_reference_passed_over[where sm = machine_G9 and ref = "''#_G9''"
      and units = "[(Some ''G1'', row_G1)]" and fl = dec_float]
  note u = unresolved_reference_passed_over[where sm = machine_G9 and ref = "''#_G9''"
      and units = "[(Some ''G9'', row_G1)]" and fl = dec_float
      and pf = "Some (9 / 10)" and rs = "Some 600"]
  note t' = unresolved_reference_passed_over[where cl = "current_limit ''#_LS1'' ''#_LTX'' ''1000''"
      and ref = "''#_LTX''" and root_el = "doc_limits ''1000'' ''900''" and seq = "Some ''1''"]
  from t h1 h2
  have a: "attach_machine dec_float machine_G9 [(Some ''G1'', row_G1)] = Inr [(Some ''G1'', row_G1)]"
    by blast
  from u h1 h2' p1 p2
  have "attach_machine dec_float machine_G9 [(Some ''G9'', row_G1)]
       = Inr (dict_update (Some (split_last ''#_G9'' ''#_''))
               (\<lambda>row. row\<lparr>gu_power_factor := Some (Some (9 / 10)), gu_rated_s := Some (Some 600)\<rparr>)
               [(Some ''G9'', row_G1)])"
    by simp
  then have c: "attach_machine dec_float machine_G9 [(Some ''G9'', row_G1)]
       = Inr [(Some ''G9'', row_G1\<lparr>gu_power_factor := Some (Some (9 / 10)),
                                    gu_rated_s := Some (Some 600)\<rparr>)]"
    by (simp add: id)
  from t' h3 h4 have b: "limit_row_of (doc_limits ''1000'' ''900'') (Some ''1'')
       (current_limit ''#_LS1'' ''#_LTX'' ''1000'') = Inr []"
    by blast
  from h1 h2 a h2' p1 p2 c h3 h4 b show ?thesis by (intro conjI)
qed

text \<open>
  A synchronous machine refers to a generating unit \<open>G9\<close> that the document does not
  hold. The run completes; the unit \<open>G1\<close> has no power factor, and the lists of errors and
  of warnings, the only findings the program reports, are empty.
\<close>

theorem dangling_reference_not_reported:
  "main dec_float dec_int lower (Inr doc_dangling) (Inr plain_text)
     = Inr (AnalysisCompleted
         \<lparr>a1 = \<lparr>total_capacity = 500, q1_units = [(Some ''G1'', row_G1)]\<rparr>,
          a2 = None, a3 = None, a4 = None,
          a5 = \<lparr>q5_lines = [\<lparr>ul_slack = True, ul_name = ''Gen1'',
                               ul_control = ''GeneratorControlSource.onAGC'',
                               ul_max_p = Some ''500''\<rparr>],
                q5_generators = [\<lparr>g_name = Some ''Gen1'',
                                    g_control = ''GeneratorControlSource.onAGC'', g_max_p = 500\<rparr>],
                no_slack_warning = False, recommendation = None\<rparr>,
          a6 = \<lparr>errors = [], warnings = []\<rparr>\<rparr>)"
proof -
  have f: "findall doc_dangling ''GeneratingUnit'' = [unit_G1]"
    "findall doc_dangling ''SynchronousMachine'' = [machine_G9]"
    "findall doc_dangling ''PowerTransformer'' = []"
    "findall doc_dangling ''ACLineSegment'' = []"
    "findall doc_dangling ''PowerTransformerEnd'' = []"
    "findall doc_dangling ''OperationalLimitSet'' = []"
    "findall doc_dangling ''VoltageLevel'' = []"
    "findall doc_dangling ''EquivalentInjection'' = []"
    by (simp_all add: doc_dangling_def unit_G1_def machine_G9_def element_defs xml_defs)
  have r1: "analyze_question_1 dec_float doc_dangling
      = Inr \<lparr>total_capacity = 500, q1_units = [(Some ''G1'', row_G1)]\<rparr>"
    unfolding analyze_question_1_def f
    by (simp add: q1_defs row_G1_def unit_G1_def machine_G9_def element_defs xml_defs num_defs str_defs)
  have r2: "analyze_question_2 doc_dangling = None"
    unfolding analyze_question_2_def f
    by (simp add: machine_G9_def element_defs xml_defs)
  have r3: "analyze_question_3 dec_float dec_int doc_dangling = Inr None"
    unfolding analyze_question_3_def winding_summary_def f by simp
  have r4: "analyze_question_4 doc_dangling = Inr None"
    unfolding analyze_question_4_def line_limits_def f by simp
  have r5: "analyze_question_5 dec_float lower doc_dangling
      = Inr \<lparr>q5_lines = [\<lparr>ul_slack = True, ul_name = ''Gen1'',
                               ul_control = ''GeneratorControlSource.onAGC'',
                               ul_max_p = Some ''500''\<rparr>],
                q5_generators = [\<lparr>g_name = Some ''Gen1'',
                                    g_control = ''GeneratorControlSource.onAGC'', g_max_p = 500\<rparr>],
                no_slack_warning = False, recommendation = None\<rparr>"
    unfolding analyze_question_5_def f
    by (simp add: q5_run_defs unit_G1_def element_defs xml_defs num_defs str_defs)
  have d: "check_duplicate_mrids doc_dangling = []"
    by (simp add: q6_defs doc_dangling_def unit_G1_def machine_G9_def element_defs full_tag_def
        str_defs)
  have r6: "analyze_question_6 dec_float doc_dangling (Inr plain_text)
      = Inr \<lparr>errors = [], warnings = []\<rparr>"
    unfolding analyze_question_6_def d check_limit_order_def check_transformer_ends_def
      check_voltage_levels_def check_zero_impedance_def f
    by (simp add: check_xml_structure_def plain_text_def ebind_def)
  show ?thesis
    by (simp add: main_def parse_cgmes_file_def run_analyses_def r1 r2 r3 r4 r5 r6 ebind_def)
qed

section \<open>Properties of the error handling\<close>

text \<open>
  C4, as the code has it. An exception of the limit check or of the impedance check is
  not caught inside question 6: it ends the analysis before the lists of errors and
  warnings are printed, and \<open>main\<close> reports the exception of the analysis as a whole.
  Only the check of the file's text catches its own failure, that of reading the file,
  and turns it into a warning, after which the entries of all checks are reported.
\<close>

theorem rule_failure_ends_analysis:
  "(check_limit_order fl root_el = Inl e \<longrightarrow> analyze_question_6 fl root_el fr = Inl e)
   \<and> (check_limit_order fl root_el = Inr els \<and> check_zero_impedance fl root_el = Inl e
      \<longrightarrow> analyze_question_6 fl root_el fr = Inl e)
   \<and> (check_limit_order fl root_el = Inr els \<and> check_zero_impedance fl root_el = Inr ws
      \<longrightarrow> analyze_question_6 fl root_el (Inl m)
          = Inr \<lparr>errors = check_duplicate_mrids root_el @ check_transformer_ends root_el @ els,
                 warnings = check_voltage_levels fl root_el @ ws @ [XmlNotChecked m]\<rparr>)
   \<and> (analyze_question_1 fl root_el = Inr qa \<and> analyze_question_3 fl pint root_el = Inr qc
      \<and> analyze_question_4 root_el = Inr qd \<and> analyze_question_5 fl lw root_el = Inr qe
      \<and> analyze_question_6 fl root_el fr = Inl e
      \<longrightarrow> main fl pint lw (Inr root_el) fr = Inr (AnalysisFailed e))"
  by (simp add: analyze_question_6_def main_def parse_cgmes_file_def run_analyses_def ebind_def
      check_xml_structure_def)

lemma bad_limit_findall:
  "findall doc_bad_limit ''GeneratingUnit'' = []"
  "findall doc_bad_limit ''SynchronousMachine'' = []"
  "findall doc_bad_limit ''PowerTransformer'' = []"
  "findall doc_bad_limit ''ACLineSegment''
     = [cim_node ''ACLineSegment'' [cim_leaf ''IdentifiedObject.mRID'' ''A'']]"
  "findall doc_bad_limit ''PowerTransformerEnd'' = []"
  "findall doc_bad_limit ''VoltageLevel'' = []"
  "findall doc_bad_limit ''EquivalentInjection'' = []"
  "findall doc_bad_limit ''OperationalLimitSet'' = [limit_set_LS1]"
  "findall doc_bad_limit ''CurrentLimit'' = [current_limit ''#_LS1'' ''#_LTP'' ''abc'']"
  by (simp_all add: doc_bad_limit_def limit_set_LS1_def current_limit_def element_defs xml_defs)

lemma bad_limit_raises: "check_limit_order dec_float doc_bad_limit = Inl ValueError"
  unfolding check_limit_order_def check_limit_set_def limit_values_def bad_limit_findall
  by (simp add: scan_current_limit_def find_limit_type_def doc_bad_limit_def limit_set_LS1_def
      current_limit_def element_defs xml_defs num_defs str_defs)

lemma bad_limit_duplicates:
  "check_duplicate_mrids doc_bad_limit = [DuplicateMRID ''A'', UsedIn 2 {''Terminal'', ''ACLineSegment''}]"
  by (simp add: q6_defs doc_bad_limit_def limit_set_LS1_def current_limit_def element_defs
      full_tag_def str_defs)

lemma bad_limit_earlier_questions:
  "analyze_question_1 dec_float doc_bad_limit = Inr \<lparr>total_capacity = 0, q1_units = []\<rparr>"
  "analyze_question_3 dec_float dec_int doc_bad_limit = Inr None"
  "analyze_question_4 doc_bad_limit = Inr None"
  "analyze_question_5 dec_float lower doc_bad_limit
     = Inr \<lparr>q5_lines = [], q5_generators = [], no_slack_warning = True, recommendation = None\<rparr>"
  unfolding analyze_question_1_def analyze_question_3_def winding_summary_def
    analyze_question_4_def line_limits_def analyze_question_5_def bad_limit_findall
  by (simp_all add: ebind_def largest_def line_id_def element_defs xml_defs)

theorem rule_failure_ends_analysis_witness:
  "check_limit_order dec_float doc_bad_limit = Inl ValueError
   \<and> analyze_question_6 dec_float doc_bad_limit (Inr plain_text) = Inl ValueError
   \<and> check_limit_order dec_float doc_bad_injection = Inr []
   \<and> check_zero_impedance dec_float doc_bad_injection = Inl ValueError
   \<and> analyze_question_6 dec_float doc_bad_injection (Inr plain_text) = Inl ValueError
   \<and> check_limit_order dec_float doc_duplicate = Inr []
   \<and> check_zero_impedance dec_float doc_duplicate = Inr []
   \<and> analyze_question_6 dec_float doc_duplicate (Inl ''No such file or directory'')
       = Inr \<lparr>errors = [DuplicateMRID ''A'', UsedIn 2 {''Terminal'', ''ACLineSegment''}],
              warnings = [XmlNotChecked ''No such file or directory'']\<rparr>
   \<and> main dec_float dec_int lower (Inr doc_bad_limit) (Inr plain_text) = Inr (AnalysisFailed ValueError)"
proof -
  note t = rule_failure_ends_analysis
  have i: "findall doc_bad_injection ''OperationalLimitSet'' = []"
    "findall doc_bad_injection ''EquivalentInjection''
       = [cim_node ''EquivalentInjection''
            [cim_leaf ''IdentifiedObject.name'' ''Inj1'',
             cim_leaf ''EquivalentInjection.r'' ''abc'',
             cim_leaf ''EquivalentInjection.x'' ''0'']]"
    by (simp_all add: doc_bad_injection_def element_defs xml_defs)
  have d: "findall doc_duplicate ''OperationalLimitSet'' = []"
    "findall doc_duplicate ''EquivalentInjection'' = []"
    "findall doc_duplicate ''PowerTransformerEnd'' = []"
    "findall doc_duplicate ''VoltageLevel'' = []"
    by (simp_all add: doc_duplicate_def element_defs xml_defs)
  have a1: "check_limit_order dec_float doc_bad_limit = Inl ValueError" by (rule bad_limit_raises)
  from t[where fl = dec_float and root_el = doc_bad_limit and e = ValueError] a1
  have a2: "analyze_question_6 dec_float doc_bad_limit (Inr plain_text) = Inl ValueError" by blast
  have b1: "check_limit_order dec_float doc_bad_injection = Inr []"
    unfolding check_limit_order_def i by simp
  have b2: "check_zero_impedance dec_float doc_bad_injection = Inl ValueError"
    unfolding check_zero_impedance_def i
    by (simp add: check_injection_def element_defs xml_defs num_defs)
  from t[where fl = dec_float and root_el = doc_bad_injection and e = ValueError and els = "[]"] b1 b2
  have b3: "analyze_question_6 dec_float doc_bad_injection (Inr plain_text) = Inl ValueError" by blast
  have c1: "check_limit_order dec_float doc_duplicate = Inr []"
    unfolding check_limit_order_def d by simp
  have c2: "check_zero_impedance dec_float doc_duplicate = Inr []"
    unfolding check_zero_impedance_def d by simp
  have c3: "check_duplicate_mrids doc_duplicate = [DuplicateMRID ''A'', UsedIn 2 {''Terminal'', ''ACLineSegment''}]"
    by (simp add: q6_defs doc_duplicate_def element_defs full_tag_def str_defs)
  have c4: "check_transformer_ends doc_duplicate = []" "check_voltage_levels dec_float doc_duplicate = []"
    unfolding check_transformer_ends_def check_voltage_levels_def d by simp_all
  from t[where fl = dec_float and root_el = doc_duplicate and els = "[]" and ws = "[]"
      and m = "''No such file or directory''"] c1 c2
  have "analyze_question_6 dec_float doc_duplicate (Inl ''No such file or directory'')
       = Inr \<lparr>errors = check_duplicate_mrids doc_duplicate @ check_transformer_ends doc_duplicate @ [],
              warnings = check_voltage_levels dec_float doc_duplicate @ []
                @ [XmlNotChecked ''No such file or directory'']\<rparr>"
    by blast
  then have c5: "analyze_question_6 dec_float doc_duplicate (Inl ''No such file or directory'')
       = Inr \<lparr>errors = [DuplicateMRID ''A'', UsedIn 2 {''Terminal'', ''ACLineSegment''}],
              warnings = [XmlNotChecked ''No such file or directory'']\<rparr>"
    by (simp add: c3 c4)
  from t[where fl = dec_float and pint = dec_int and lw = lower and root_el = doc_bad_limit
      and e = ValueError
      and fr = "Inr plain_text"] bad_limit_earlier_questions a2
  have e: "main dec_float dec_int lower (Inr doc_bad_limit) (Inr plain_text) = Inr (AnalysisFailed ValueError)"
    by blast
  from a1 a2 b1 b2 b3 c1 c2 c5 e show ?thesis by (intro conjI)
qed

text \<open>
  Two elements share the mRID \<open>A\<close>, which the duplicate check finds, and a current limit
  has the value \<open>abc\<close>: the limit check raises ValueError, question 6 ends with it, and
  the run ends with the error of the analysis. No finding is reported, neither the
  duplicate nor one that names the failed check.
\<close>

theorem failing_rule_suppresses_findings:
  "check_duplicate_mrids doc_bad_limit = [DuplicateMRID ''A'', UsedIn 2 {''Terminal'', ''ACLineSegment''}]
   \<and> check_limit_order dec_float doc_bad_limit = Inl ValueError
   \<and> analyze_question_6 dec_float doc_bad_limit (Inr plain_text) = Inl ValueError
   \<and> main dec_float dec_int lower (Inr doc_bad_limit) (Inr plain_text) = Inr (AnalysisFailed ValueError)"
  by (simp add: bad_limit_duplicates bad_limit_raises bad_limit_earlier_questions
      analyze_question_6_def main_def parse_cgmes_file_def run_analyses_def ebind_def)

section \<open>Properties of the loader\<close>

text \<open>
  C7, as the code has it. The loader never raises: a failure of \<open>ET.parse\<close> is caught,
  printed, and answered with \<open>(None, None)\<close>, upon which \<open>main\<close> returns without running
  an analysis; for a file that parses the loader returns the tree and its root.
\<close>

theorem loader_catches_parse_error:
  "parse_cgmes_file (Inl e) = Inr (LoadError e, None, None)
   \<and> parse_cgmes_file (Inr root_el) = Inr (FileLoaded, Some root_el, Some root_el)
   \<and> main fl pint lw (Inl e) fr = Inr NotLoaded"
  by (simp add: parse_cgmes_file_def main_def)

text \<open>
  The parser reports a mismatched tag: the loader returns the pair \<open>(None, None)\<close> and
  does not raise the error to its caller.
\<close>

theorem parse_error_is_not_raised:
  "parse_cgmes_file (Inl ''mismatched tag: line 3, column 2'')
     = Inr (LoadError ''mismatched tag: line 3, column 2'', None, None)
   \<and> parse_cgmes_file (Inl ''mismatched tag: line 3, column 2'')
     \<noteq> Inl ''mismatched tag: line 3, column 2''
   \<and> main dec_float dec_int lower (Inl ''mismatched tag: line 3, column 2'') (Inr plain_text)
     = Inr NotLoaded"
  by (simp add: parse_cgmes_file_def main_def)

section \<open>Properties of task 1\<close>

text \<open>
  C8. An exception of \<open>requests.get\<close> or of \<open>raise_for_status\<close> is the result of
  \<open>fetch_data\<close>, unchanged, and an exception of either call of \<open>fetch_data\<close> is the result
  of \<open>main\<close>, unchanged.
\<close>

theorem network_errors_propagate:
  "(layer (fetch_request report_id timezone timeout) = Inl e
      \<longrightarrow> fetch_data lw layer report_id start_date end_date timezone timeout = Inl e)
   \<and> (layer (fetch_request report_id timezone timeout) = Inr resp \<and> raise_for_status resp = Inl e
      \<longrightarrow> fetch_data lw layer report_id start_date end_date timezone timeout = Inl e)
   \<and> (mkdir ev = Inr () \<and> get_day_range (fromisoformat ev) (arg_date ev) = Inr days
      \<and> fetch_data (str_lower ev) (http ev) REPORT_ID_AFRR (fst days) (snd days) ''EET'' (arg_timeout ev) = Inl e
      \<longrightarrow> task1_main ev = Inl e)
   \<and> (mkdir ev = Inr () \<and> get_day_range (fromisoformat ev) (arg_date ev) = Inr days
      \<and> fetch_data (str_lower ev) (http ev) REPORT_ID_AFRR (fst days) (snd days) ''EET'' (arg_timeout ev)
          = Inr afrr_data
      \<and> parse_to_dataframe (to_datetime ev) afrr_data = Inr afrr_df
      \<and> fetch_data (str_lower ev) (http ev) REPORT_ID_IMBALANCE (fst days) (snd days) ''EET'' (arg_timeout ev)
          = Inl e
      \<longrightarrow> task1_main ev = Inl e)"
  by (simp add: fetch_data_def task1_main_def ebind_def)

lemmas task1_defs = env_sample_def http_unavailable_def fetch_request_def raise_for_status_def
  get_day_range_def REPORT_ID_AFRR_def REPORT_ID_IMBALANCE_def afrr_body_def

theorem network_errors_propagate_witness:
  "fetch_data lower (\<lambda>req. Inl Timeout) REPORT_ID_AFRR ''2025-09-22T00:00'' ''2025-09-22T23:59'' ''EET'' 30
     = Inl Timeout
   \<and> http_unavailable (fetch_request REPORT_ID_IMBALANCE ''EET'' 30)
     = Inr \<lparr>status_code = 503, content_type_header = Some ''text/html'', json_body = None\<rparr>
   \<and> raise_for_status \<lparr>status_code = 503, content_type_header = Some ''text/html'', json_body = None\<rparr>
     = Inl (HTTPError 503)
   \<and> fetch_data lower http_unavailable REPORT_ID_IMBALANCE ''2025-09-22T00:00'' ''2025-09-22T23:59'' ''EET'' 30
     = Inl (HTTPError 503)
   \<and> task1_main (env_sample (\<lambda>req. Inl ConnectionError)) = Inl ConnectionError
   \<and> fetch_data lower http_unavailable REPORT_ID_AFRR ''2025-09-22T00:00'' ''2025-09-22T23:59'' ''EET'' 30
     = Inr afrr_body
   \<and> parse_to_dataframe (\<lambda>xs. map (\<lambda>x. Some 0) xs) afrr_body = Inr [(0, 5)]
   \<and> task1_main (env_sample http_unavailable) = Inl (HTTPError 503)"
proof -
  let ?s = "''2025-09-22T00:00''" and ?d = "''2025-09-22T23:59''"
  let ?r = "\<lparr>status_code = 503, content_type_header = Some ''text/html'', json_body = None\<rparr>"
  note t = network_errors_propagate
  have a: "fetch_data lower (\<lambda>req. Inl Timeout) REPORT_ID_AFRR ?s ?d ''EET'' 30 = Inl Timeout"
    using t[where layer = "\<lambda>req. Inl Timeout" and lw = lower and e = Timeout] by blast
  have b1: "http_unavailable (fetch_request REPORT_ID_IMBALANCE ''EET'' 30) = Inr ?r"
    by (simp add: task1_defs)
  have b2: "raise_for_status ?r = Inl (HTTPError 503)"
    by (simp add: raise_for_status_def)
  have b3: "fetch_data lower http_unavailable REPORT_ID_IMBALANCE ?s ?d ''EET'' 30 = Inl (HTTPError 503)"
    using t[where layer = http_unavailable and lw = lower and report_id = REPORT_ID_IMBALANCE
        and timezone = "''EET''"
        and timeout = 30 and resp = ?r and e = "HTTPError 503"] b1 b2 by blast
  have m: "mkdir (env_sample layer) = Inr ()" for layer by (simp add: env_sample_def)
  have g: "get_day_range (fromisoformat (env_sample layer)) (arg_date (env_sample layer))
      = Inr (?s, ?d)" for layer
    by (simp add: env_sample_def get_day_range_def)
  have c0: "fetch_data (str_lower (env_sample (\<lambda>req. Inl ConnectionError)))
       (http (env_sample (\<lambda>req. Inl ConnectionError))) REPORT_ID_AFRR
       (fst (?s, ?d)) (snd (?s, ?d)) ''EET'' (arg_timeout (env_sample (\<lambda>req. Inl ConnectionError)))
      = Inl ConnectionError"
    by (simp add: fetch_data_def env_sample_def ebind_def)
  have c: "task1_main (env_sample (\<lambda>req. Inl ConnectionError)) = Inl ConnectionError"
    using t[where ev = "env_sample (\<lambda>req. Inl ConnectionError)" and days = "(?s, ?d)"
        and e = ConnectionError] m g c0 by blast
  have d1: "fetch_data lower http_unavailable REPORT_ID_AFRR ?s ?d ''EET'' 30 = Inr afrr_body"
    by (simp add: fetch_data_def ebind_def lower_def lower_char_def http_unavailable_def
        fetch_request_def raise_for_status_def)
  have d2: "parse_to_dataframe (\<lambda>xs. map (\<lambda>x. Some 0) xs) afrr_body = Inr [(0, 5)]"
    by (simp add: parse_to_dataframe_def afrr_body_def json_contains_def json_getitem_def
        json_iter_def record_of_def json_get_def json_sum_def json_number_def ebind_def)
  have e1: "fetch_data (str_lower (env_sample http_unavailable)) (http (env_sample http_unavailable)) REPORT_ID_AFRR
       (fst (?s, ?d)) (snd (?s, ?d)) ''EET'' (arg_timeout (env_sample http_unavailable))
      = Inr afrr_body"
    using d1 by (simp add: env_sample_def)
  have e2: "parse_to_dataframe (to_datetime (env_sample http_unavailable)) afrr_body = Inr [(0, 5)]"
    using d2 by (simp add: env_sample_def)
  have e3: "fetch_data (str_lower (env_sample http_unavailable)) (http (env_sample http_unavailable)) REPORT_ID_IMBALANCE
       (fst (?s, ?d)) (snd (?s, ?d)) ''EET'' (arg_timeout (env_sample http_unavailable))
      = Inl (HTTPError 503)"
    using b3 by (simp add: env_sample_def)
  have e: "task1_main (env_sample http_unavailable) = Inl (HTTPError 503)"
    using t[where ev = "env_sample http_unavailable" and days = "(?s, ?d)"
        and e = "HTTPError 503" and afrr_data = afrr_body and afrr_df = "[(0, 5)]"] m g e1 e2 e3
    by blast
  from a b1 b2 b3 c d1 d2 e show ?thesis by (intro conjI)
qed

lemma emap_total:
  assumes "\<forall>x \<in> set xs. f x = Inr (g x)"
  shows "emap f xs = Inr (map g xs)"
  using assms by (induction xs) simp_all

lemma cell_div_replace_zero: "cell_div zd a (replace_zero b) = Inr (ratio_of a b)"
  by (cases b; cases a) (simp_all add: cell_div_def ratio_of_def)

lemma zip_of_maps: "zip (map f xs) (map g xs) = map (\<lambda>x. (f x, g x)) xs"
  by (induction xs) simp_all

lemma emap_ratio:
  "emap (\<lambda>ab. cell_div zd (fst ab) (snd ab)) (map (\<lambda>t. (f t, replace_zero (g t))) idx)
     = Inr (map (\<lambda>t. ratio_of (f t) (g t)) idx)"
  by (induction idx) (simp_all add: cell_div_replace_zero)

lemma zip_rows:
  "zip idx (zip (map f idx) (zip (map g idx) (map h idx))) = map (\<lambda>t. (t, f t, g t, h t)) idx"
  by (induction idx) simp_all

lemma reindex_distinct:
  assumes "distinct (map fst df)"
  shows "reindex df idx = Inr (map (\<lambda>t. (t, cell_at df t)) idx)"
  using assms by (simp add: reindex_def cell_at_def)

lemma reindex_repeated:
  assumes "\<not> distinct (map fst df)"
  shows "reindex df idx = Inl ValueError"
  using assms by (simp add: reindex_def)

lemma calculate_metrics_rows:
  assumes "distinct (map fst afrr_df)" and "distinct (map fst imbalance_df)"
  shows "calculate_metrics zd afrr_df imbalance_df =
     Inr (map (\<lambda>t. \<lparr>m_time = t, afrr_activation = cell_at afrr_df t,
                      imbalance = cell_at imbalance_df t,
                      ratio_abs = ratio_of (cell_abs (cell_at afrr_df t))
                                    (cell_abs (cell_at imbalance_df t))\<rparr>)
            (sort (remdups (map fst afrr_df @ map fst imbalance_df))))"
proof -
  let ?idx = "sort (remdups (map fst afrr_df @ map fst imbalance_df))"
  have z: "zip (map (\<lambda>tv. cell_abs (snd tv)) (map (\<lambda>t. (t, cell_at afrr_df t)) ?idx))
               (map replace_zero
                  (map (\<lambda>tv. cell_abs (snd tv)) (map (\<lambda>t. (t, cell_at imbalance_df t)) ?idx)))
        = map (\<lambda>t. (cell_abs (cell_at afrr_df t), replace_zero (cell_abs (cell_at imbalance_df t)))) ?idx"
    by (simp add: zip_of_maps comp_def)
  have a: "map snd (map (\<lambda>t. (t, cell_at df t)) idx) = map (cell_at df) idx" for df idx
    by (simp add: comp_def)
  show ?thesis
    unfolding calculate_metrics_def Let_def reindex_distinct[OF assms(1)]
      reindex_distinct[OF assms(2)] ebind_def sum.case z emap_ratio a
    by (simp add: zip_rows comp_def)
qed

lemma calculate_metrics_repeated:
  assumes "\<not> distinct (map fst afrr_df) \<or> \<not> distinct (map fst imbalance_df)"
  shows "calculate_metrics zd afrr_df imbalance_df = Inl ValueError"
  using assms by (auto simp: calculate_metrics_def reindex_def ebind_def Let_def)

text \<open>
  C9, as the code has it. For two frames without a repeated index label the metrics are
  computed, whatever a division by zero would give: there is one row for each time of the
  union of the two indices, in order, and its \<open>ratio_abs\<close> is missing where the imbalance
  is zero or missing, and is the quotient of the absolute values where the imbalance is a
  non-zero number (missing when the activation is missing there).
\<close>

theorem ratio_missing_at_zero_imbalance:
  assumes "distinct (map fst afrr_df)" and "distinct (map fst imbalance_df)"
  shows "\<exists>m. calculate_metrics zd afrr_df imbalance_df = Inr m
     \<and> map m_time m = sort (remdups (map fst afrr_df @ map fst imbalance_df))
     \<and> set (map m_time m) = fst ` set afrr_df \<union> fst ` set imbalance_df
     \<and> (\<forall>row \<in> set m.
          ratio_abs row =
            (case map_of imbalance_df (m_time row) of
               None \<Rightarrow> NA
             | Some i \<Rightarrow>
                 if i = 0 then NA
                 else (case map_of afrr_df (m_time row) of
                         None \<Rightarrow> NA
                       | Some a \<Rightarrow> Num (\<bar>a\<bar> / \<bar>i\<bar>))))"
proof -
  let ?idx = "sort (remdups (map fst afrr_df @ map fst imbalance_df))"
  let ?row = "\<lambda>t. \<lparr>m_time = t, afrr_activation = cell_at afrr_df t,
                      imbalance = cell_at imbalance_df t,
                      ratio_abs = ratio_of (cell_abs (cell_at afrr_df t))
                                    (cell_abs (cell_at imbalance_df t))\<rparr>"
  have m: "calculate_metrics zd afrr_df imbalance_df = Inr (map ?row ?idx)"
    by (rule calculate_metrics_rows[OF assms])
  have t: "map m_time (map ?row ?idx) = ?idx" by (simp add: comp_def)
  have s: "set (map m_time (map ?row ?idx)) = fst ` set afrr_df \<union> fst ` set imbalance_df"
    unfolding t by simp
  have r: "\<forall>row \<in> set (map ?row ?idx).
          ratio_abs row =
            (case map_of imbalance_df (m_time row) of
               None \<Rightarrow> NA
             | Some i \<Rightarrow>
                 if i = 0 then NA
                 else (case map_of afrr_df (m_time row) of
                         None \<Rightarrow> NA
                       | Some a \<Rightarrow> Num (\<bar>a\<bar> / \<bar>i\<bar>)))"
    by (auto simp: ratio_of_def cell_at_def split: option.splits)
  from m t s r show ?thesis by blast
qed

lemmas metrics_defs = calculate_metrics_def reindex_def cell_div_def ebind_def
  afrr_sample_def imbalance_sample_def

theorem ratio_missing_at_zero_imbalance_witness:
  "distinct (map fst afrr_sample) \<and> distinct (map fst imbalance_sample)
   \<and> calculate_metrics (\<lambda>a. Inl ZeroDivisionError) afrr_sample imbalance_sample
     = Inr [\<lparr>m_time = 0, afrr_activation = Num 4, imbalance = NA, ratio_abs = NA\<rparr>,
            \<lparr>m_time = 1, afrr_activation = Num (- 6), imbalance = Num 12, ratio_abs = Num (1 / 2)\<rparr>,
            \<lparr>m_time = 2, afrr_activation = Num 5, imbalance = Num 0, ratio_abs = NA\<rparr>,
            \<lparr>m_time = 3, afrr_activation = NA, imbalance = Num 7, ratio_abs = NA\<rparr>]
   \<and> (\<exists>m. calculate_metrics (\<lambda>a. Inl ZeroDivisionError) afrr_sample imbalance_sample = Inr m
        \<and> map m_time m = [0, 1, 2, 3]
        \<and> list_all (\<lambda>row. ratio_abs row =
            (case map_of imbalance_sample (m_time row) of
               None \<Rightarrow> NA
             | Some i \<Rightarrow>
                 if i = 0 then NA
                 else (case map_of afrr_sample (m_time row) of
                         None \<Rightarrow> NA
                       | Some a \<Rightarrow> Num (\<bar>a\<bar> / \<bar>i\<bar>)))) m)"
proof -
  have h1: "distinct (map fst afrr_sample)" by (simp add: afrr_sample_def)
  have h2: "distinct (map fst imbalance_sample)" by (simp add: imbalance_sample_def)
  have idx: "sort (remdups (map fst afrr_sample @ map fst imbalance_sample)) = [0, 1, 2, 3]"
    by (simp add: afrr_sample_def imbalance_sample_def)
  have v: "calculate_metrics (\<lambda>a. Inl ZeroDivisionError) afrr_sample imbalance_sample
     = Inr [\<lparr>m_time = 0, afrr_activation = Num 4, imbalance = NA, ratio_abs = NA\<rparr>,
            \<lparr>m_time = 1, afrr_activation = Num (- 6), imbalance = Num 12, ratio_abs = Num (1 / 2)\<rparr>,
            \<lparr>m_time = 2, afrr_activation = Num 5, imbalance = Num 0, ratio_abs = NA\<rparr>,
            \<lparr>m_time = 3, afrr_activation = NA, imbalance = Num 7, ratio_abs = NA\<rparr>]"
    unfolding calculate_metrics_def Let_def idx
    by (simp add: reindex_def cell_div_def ebind_def afrr_sample_def imbalance_sample_def)
  let ?P = "\<lambda>row. ratio_abs row =
            (case map_of imbalance_sample (m_time row) of
               None \<Rightarrow> NA
             | Some i \<Rightarrow>
                 if i = 0 then NA
                 else (case map_of afrr_sample (m_time row) of
                         None \<Rightarrow> NA
                       | Some a \<Rightarrow> Num (\<bar>a\<bar> / \<bar>i\<bar>)))"
  from ratio_missing_at_zero_imbalance[OF h1 h2, of "\<lambda>a. Inl ZeroDivisionError"]
  obtain m where m: "calculate_metrics (\<lambda>a. Inl ZeroDivisionError) afrr_sample imbalance_sample = Inr m"
    "map m_time m = sort (remdups (map fst afrr_sample @ map fst imbalance_sample))"
    "\<forall>row \<in> set m. ?P row"
    by (elim exE conjE)
  from m(3) have "list_all ?P m" by (simp only: list_all_iff)
  with m(1) m(2) have "\<exists>m. calculate_metrics (\<lambda>a. Inl ZeroDivisionError) afrr_sample imbalance_sample = Inr m
        \<and> map m_time m = [0, 1, 2, 3] \<and> list_all ?P m"
    unfolding idx by (intro exI[of _ m] conjI)
  with h1 h2 v show ?thesis by (intro conjI)
qed

text \<open>
  The activation report holds two items of the same time, so that the label 1 is
  repeated in its frame: \<open>reindex\<close> raises ValueError and no metrics are computed.
\<close>

theorem repeated_label_stops_metrics:
  "parse_to_dataframe (\<lambda>xs. map (\<lambda>x. Some 1) xs) repeated_body = Inr afrr_repeated
   \<and> \<not> distinct (map fst afrr_repeated)
   \<and> calculate_metrics (\<lambda>a. Inl ZeroDivisionError) afrr_repeated imbalance_sample = Inl ValueError"
proof -
  have p: "parse_to_dataframe (\<lambda>xs. map (\<lambda>x. Some 1) xs) repeated_body = Inr afrr_repeated"
    by (simp add: parse_to_dataframe_def repeated_body_def afrr_repeated_def json_contains_def
        json_getitem_def json_iter_def record_of_def json_get_def json_sum_def json_number_def
        ebind_def)
  have d: "\<not> distinct (map fst afrr_repeated)" by (simp add: afrr_repeated_def)
  have "calculate_metrics (\<lambda>a. Inl ZeroDivisionError) afrr_repeated imbalance_sample = Inl ValueError"
    using d by (simp add: calculate_metrics_def reindex_def ebind_def Let_def)
  with p d show ?thesis by (intro conjI)
qed

end
